theory Spec2Isabelle
  imports Complex_Main
begin

section \<open>JavaScript values\<close>

text \<open>
  Strings are the byte sequences of their UTF-8 encoding. The Turkish letters of the
  source's string literals are named here once and spliced into the literals below.
\<close>

definition O_uml :: string where "O_uml = [CHR 0xC3, CHR 0x96]"
definition o_uml :: string where "o_uml = [CHR 0xC3, CHR 0xB6]"
definition u_uml :: string where "u_uml = [CHR 0xC3, CHR 0xBC]"
definition c_cedilla :: string where "c_cedilla = [CHR 0xC3, CHR 0xA7]"
definition g_breve :: string where "g_breve = [CHR 0xC4, CHR 0x9F]"
definition dotless_i :: string where "dotless_i = [CHR 0xC4, CHR 0xB1]"
definition s_cedilla :: string where "s_cedilla = [CHR 0xC5, CHR 0x9F]"

text \<open>
  A value that travels as JSON (tool arguments, request bodies, rows of the Data Store),
  with \<open>undefined\<close> for a property that is not there. Numbers are reals: the code
  only passes them on. An object lists its properties; \<open>member\<close> reads one, as
  \<open>obj.key\<close> and destructuring do.
\<close>

datatype json =
    JUndefined
  | JNull
  | JBool bool
  | JNum real
  | JStr string
  | JArr "json list"
  | JObj "(string \<times> json) list"

definition member :: "(string \<times> json) list \<Rightarrow> string \<Rightarrow> json" where
  "member kvs k = (case map_of kvs k of None \<Rightarrow> JUndefined | Some v \<Rightarrow> v)"

section \<open>Streaming sessions: \<open>GET /sse\<close> and \<open>POST /message\<close> (app.js)\<close>

text \<open>
  \<open>req.query.sessionId\<close> as Express parses it: absent (\<open>None\<close>), a string, or an
  array or object for a repeated or bracketed key. Only the empty string and the
  absent key are falsy; an array or object is never equal to a key of the registry.
\<close>

datatype query_value = QString string | QNested

fun truthy_query :: "query_value option \<Rightarrow> bool" where
  "truthy_query None = False"
| "truthy_query (Some (QString s)) = (s \<noteq> [])"
| "truthy_query (Some QNested) = True"

record transport =
  sessionId :: string

text \<open>
  The module-level \<open>const transports = new Map()\<close>, and the sessions whose protocol
  server has had \<open>server.onclose\<close> assigned (the assignment is never undone).
\<close>

record app_state =
  transports :: "string \<rightharpoonup> transport"
  onclose :: "string set"

fun transports_get :: "(string \<rightharpoonup> transport) \<Rightarrow> query_value option \<Rightarrow> transport option" where
  "transports_get m (Some (QString s)) = m s"
| "transports_get m (Some QNested) = None"
| "transports_get m None = None"

text \<open>What a handler does besides changing the registry, in program order.\<close>

datatype event =
    CreateMCPServer
  | LogReconnecting "string option"
  | Connect string
  | LogConnected string
  | LogDisconnected string
  | Cleanup
  | LogMessageFrom "query_value option"
  | HandlePostMessage string json
  | LogNoTransport "query_value option"
  | Respond nat json

text \<open>
  \<open>app.get("/sse")\<close>. \<open>fresh\<close> is the id the new \<open>SSEServerTransport\<close> gives itself,
  and \<open>server.connect\<close> is taken to succeed. With a truthy \<open>sessionId\<close> the handler
  only looks the transport up and logs; it sends no response.
\<close>

definition get_sse :: "app_state \<Rightarrow> query_value option \<Rightarrow> string \<Rightarrow> app_state \<times> event list" where
  "get_sse st sid fresh =
     (if truthy_query sid then
        (st, [CreateMCPServer,
              LogReconnecting (map_option sessionId (transports_get (transports st) sid))])
      else
        (st\<lparr>transports := (transports st)(fresh \<mapsto> \<lparr>sessionId = fresh\<rparr>),
            onclose := insert fresh (onclose st)\<rparr>,
         [CreateMCPServer, Connect fresh, LogConnected fresh]))"

text \<open>The closure assigned to \<open>server.onclose\<close> for the transport \<open>t\<close>.\<close>

definition server_onclose :: "transport \<Rightarrow> app_state \<Rightarrow> app_state \<times> event list" where
  "server_onclose t st =
     (st\<lparr>transports := (transports st)(sessionId t := None)\<rparr>,
      [LogDisconnected (sessionId t), Cleanup])"

text \<open>
  A close event of the connection of \<open>t\<close>: the protocol server calls its
  \<open>onclose\<close> if one is assigned.
\<close>

definition close_event :: "transport \<Rightarrow> app_state \<Rightarrow> app_state \<times> event list" where
  "close_event t st =
     (if sessionId t \<in> onclose st then server_onclose t st else (st, []))"

text \<open>\<open>app.post("/message")\<close>.\<close>

definition post_message :: "app_state \<Rightarrow> query_value option \<Rightarrow> json \<Rightarrow> app_state \<times> event list" where
  "post_message st sid body =
     (case transports_get (transports st) sid of
        Some t \<Rightarrow> (st, [LogMessageFrom sid, HandlePostMessage (sessionId t) body])
      | None \<Rightarrow>
          (st, [LogNoTransport sid,
                Respond 404 (JObj [(''error'', JStr ''Session not found'')])]))"

definition no_sessions :: app_state where
  "no_sessions = \<lparr>transports = Map.empty, onclose = {}\<rparr>"

section \<open>Errors, outcomes and what the code takes from its libraries\<close>

text \<open>
  The issues of a \<open>ZodError\<close>. The schemas of this program carry no refinement, so
  an issue is always \<open>invalid_type\<close>: the path of the offending value, the expected
  type and the received one.
\<close>

datatype path_elem = Key string | Index nat

datatype zod_issue = InvalidType "path_elem list" string string

fun issue_path :: "zod_issue \<Rightarrow> path_elem list" where
  "issue_path (InvalidType p e r) = p"

datatype js_error =
    Error string
  | TypeError string
  | ReferenceError string
  | ZodError "zod_issue list"

text \<open>A call returns (an awaited promise resolves) or throws (the promise rejects).\<close>

datatype 'a outcome = Returned 'a | Threw js_error

text \<open>
  What the code calls and this development does not look into: the string built-ins
  \<open>trim\<close> and \<open>toUpperCase\<close>, the conversion of a value inside a template literal,
  \<open>JSON.stringify(v, null, 2)\<close>, the text of a \<open>ZodError\<close>'s \<open>message\<close>, and the
  floating-point average and \<open>toFixed(2)\<close> of the grade rows.
\<close>

record runtime =
  trim :: "string \<Rightarrow> string"
  toUpperCase :: "string \<Rightarrow> string"
  to_string :: "json \<Rightarrow> string"
  JSON_stringify :: "json \<Rightarrow> string"
  zod_message :: "zod_issue list \<Rightarrow> string"
  average :: "json list \<Rightarrow> json"
  toFixed2 :: "json \<Rightarrow> string"

definition startsWith :: "string \<Rightarrow> string \<Rightarrow> bool" where
  "startsWith s p = (take (length p) s = p)"

text \<open>
  Whether a text holds another one somewhere inside it, and a key between double quotes,
  as JSON prints it (the keys of this program's schemas need no escaping).
\<close>

fun string_includes :: "string \<Rightarrow> string \<Rightarrow> bool" where
  "string_includes [] p = (p = [])"
| "string_includes (c # cs) p = (startsWith (c # cs) p \<or> string_includes cs p)"

definition quoted :: "string \<Rightarrow> string" where
  "quoted k = [CHR 0x22] @ k @ [CHR 0x22]"

fun message :: "runtime \<Rightarrow> js_error \<Rightarrow> string" where
  "message rt (Error m) = m"
| "message rt (TypeError m) = m"
| "message rt (ReferenceError m) = m"
| "message rt (ZodError issues) = zod_message rt issues"

text \<open>
  What this development asks of a \<open>ZodError\<close>'s message where a claim is about its
  text: the message prints the path of every issue, so each key on a path stands in
  it between quotes. Zod's message is the JSON of the issues, each with its \<open>path\<close>.
\<close>

definition names_paths :: "runtime \<Rightarrow> bool" where
  "names_paths rt =
     (\<forall>issues i k. i \<in> set issues \<and> Key k \<in> set (issue_path i) \<longrightarrow>
        string_includes (zod_message rt issues) (quoted k))"

section \<open>Zod schemas and \<open>parse\<close>\<close>

text \<open>
  The schema constructors the program uses: \<open>z.string()\<close>, \<open>z.number()\<close>,
  \<open>z.array(s)\<close>, \<open>s.optional()\<close>, \<open>s.describe(text)\<close>, and \<open>z.object\<close> of a
  shape, which is the list of its keys with their schemas.
\<close>

datatype zod_schema =
    ZString
  | ZNumber
  | ZArray zod_schema
  | ZOptional zod_schema
  | ZDescribe zod_schema string

type_synonym zod_object = "(string \<times> zod_schema) list"

fun parsed_type :: "json \<Rightarrow> string" where
  "parsed_type JUndefined = ''undefined''"
| "parsed_type JNull = ''null''"
| "parsed_type (JBool b) = ''boolean''"
| "parsed_type (JNum n) = ''number''"
| "parsed_type (JStr s) = ''string''"
| "parsed_type (JArr xs) = ''array''"
| "parsed_type (JObj kvs) = ''object''"

text \<open>The issues of a value against a schema; none when the value is accepted.\<close>

fun zod_check :: "zod_schema \<Rightarrow> path_elem list \<Rightarrow> json \<Rightarrow> zod_issue list" where
  "zod_check ZString p v =
     (case v of JStr s \<Rightarrow> [] | _ \<Rightarrow> [InvalidType p ''string'' (parsed_type v)])"
| "zod_check ZNumber p v =
     (case v of JNum n \<Rightarrow> [] | _ \<Rightarrow> [InvalidType p ''number'' (parsed_type v)])"
| "zod_check (ZArray s) p v =
     (case v of
        JArr xs \<Rightarrow> concat (map (\<lambda>(i, x). zod_check s (p @ [Index i]) x) (enumerate 0 xs))
      | _ \<Rightarrow> [InvalidType p ''array'' (parsed_type v)])"
| "zod_check (ZOptional s) p v = (if v = JUndefined then [] else zod_check s p v)"
| "zod_check (ZDescribe s d) p v = zod_check s p v"

text \<open>
  What a schema declares, read on its own: whether a value has the declared type. A
  field that is missing reads as \<open>undefined\<close>, which only an optional schema admits.
\<close>

fun fits :: "zod_schema \<Rightarrow> json \<Rightarrow> bool" where
  "fits ZString v = (case v of JStr s \<Rightarrow> True | _ \<Rightarrow> False)"
| "fits ZNumber v = (case v of JNum n \<Rightarrow> True | _ \<Rightarrow> False)"
| "fits (ZArray s) v = (case v of JArr xs \<Rightarrow> list_all (fits s) xs | _ \<Rightarrow> False)"
| "fits (ZOptional s) v = (v = JUndefined \<or> fits s v)"
| "fits (ZDescribe s d) v = fits s v"

definition shape_issues :: "zod_object \<Rightarrow> (string \<times> json) list \<Rightarrow> zod_issue list" where
  "shape_issues shape kvs = concat (map (\<lambda>(k, s). zod_check s [Key k] (member kvs k)) shape)"

text \<open>
  \<open>schema.parse(v)\<close> of an object schema: the object with the keys of the shape
  (unknown keys are stripped), or a \<open>ZodError\<close> with every issue found.
\<close>

definition zod_parse :: "zod_object \<Rightarrow> json \<Rightarrow> js_error + json" where
  "zod_parse shape v =
     (case v of
        JObj kvs \<Rightarrow>
          (if shape_issues shape kvs = []
           then Inr (JObj (filter (\<lambda>(k, x). x \<noteq> JUndefined)
                             (map (\<lambda>(k, s). (k, member kvs k)) shape)))
           else Inl (ZodError (shape_issues shape kvs)))
      | _ \<Rightarrow> Inl (ZodError [InvalidType [] ''object'' (parsed_type v)]))"

fun get_property :: "json \<Rightarrow> string \<Rightarrow> json" where
  "get_property (JObj kvs) k = member kvs k"
| "get_property v k = JUndefined"

section \<open>The Data Store and the tool functions (app.js)\<close>

text \<open>
  One constructor for each SQL literal of app.js, named after the function that
  submits it; \<open>CustomSQL\<close> carries the caller's text.
\<close>

datatype statement =
    SelectAllStudents
  | SelectStudentById
  | SelectStudentGrades
  | SelectStudentAttendance
  | SelectStudentPayments
  | SelectStudentsByClass
  | SelectSearchStudents
  | SelectStudentAverage
  | CustomSQL string

text \<open>
  What the store answers to \<open>db.get\<close> (an error, no row, or a row) and to
  \<open>db.all\<close> (an error or the rows), for a statement and its parameters.
\<close>

record data_store =
  db_get :: "statement \<Rightarrow> json \<Rightarrow> js_error + json option"
  db_all :: "statement \<Rightarrow> json \<Rightarrow> js_error + json list"

text \<open>
  The trace of a call: the tool functions entered, the statements submitted to the
  store, the HTTP requests made (mcp-server.js), the responses sent.
\<close>

datatype http_request =
    GET string
  | POST string json
  | PUT string json
  | DELETE string

datatype effect =
    Invoke string
  | Submit statement json
  | Http http_request
  | Reply nat json

type_synonym 'a io = "effect list \<times> 'a outcome"

datatype content_block = Text string

record tool_result =
  content :: "content_block list"
  isError :: "bool option"

text \<open>
  The callback every \<open>db.all\<close> of a tool function passes:
  \<open>err ? reject(err) : resolve({content: [{type: "text", text: JSON.stringify({data: rows}, null, 2)}]})\<close>.
\<close>

definition resolve_data :: "runtime \<Rightarrow> json \<Rightarrow> tool_result" where
  "resolve_data rt d =
     \<lparr>content = [Text (JSON_stringify rt (JObj [(''data'', d)]))], isError = None\<rparr>"

definition rows_callback :: "runtime \<Rightarrow> js_error + json list \<Rightarrow> tool_result outcome" where
  "rows_callback rt r =
     (case r of Inl err \<Rightarrow> Threw err | Inr rows \<Rightarrow> Returned (resolve_data rt (JArr rows)))"

definition getAllStudents :: "runtime \<Rightarrow> data_store \<Rightarrow> tool_result io" where
  "getAllStudents rt ds =
     ([Invoke ''getAllStudents'', Submit SelectAllStudents (JArr [])],
      rows_callback rt (db_all ds SelectAllStudents (JArr [])))"

definition ogrenci_bulunamadi :: string where
  "ogrenci_bulunamadi = O_uml @ g_breve @ ''renci bulunamad'' @ dotless_i"

definition getStudentById :: "runtime \<Rightarrow> data_store \<Rightarrow> json \<Rightarrow> tool_result io" where
  "getStudentById rt ds ident =
     ([Invoke ''getStudentById'', Submit SelectStudentById (JArr [ident])],
      (case db_get ds SelectStudentById (JArr [ident]) of
         Inl err \<Rightarrow> Threw err
       | Inr None \<Rightarrow> Threw (Error ogrenci_bulunamadi)
       | Inr (Some row) \<Rightarrow> Returned (resolve_data rt row)))"

definition getStudentGrades :: "runtime \<Rightarrow> data_store \<Rightarrow> json \<Rightarrow> tool_result io" where
  "getStudentGrades rt ds ident =
     ([Invoke ''getStudentGrades'', Submit SelectStudentGrades (JArr [ident])],
      rows_callback rt (db_all ds SelectStudentGrades (JArr [ident])))"

definition getStudentAttendance :: "runtime \<Rightarrow> data_store \<Rightarrow> json \<Rightarrow> tool_result io" where
  "getStudentAttendance rt ds ident =
     ([Invoke ''getStudentAttendance'', Submit SelectStudentAttendance (JArr [ident])],
      rows_callback rt (db_all ds SelectStudentAttendance (JArr [ident])))"

definition getStudentPayments :: "runtime \<Rightarrow> data_store \<Rightarrow> json \<Rightarrow> tool_result io" where
  "getStudentPayments rt ds ident =
     ([Invoke ''getStudentPayments'', Submit SelectStudentPayments (JArr [ident])],
      rows_callback rt (db_all ds SelectStudentPayments (JArr [ident])))"

definition getStudentsByClass :: "runtime \<Rightarrow> data_store \<Rightarrow> json \<Rightarrow> tool_result io" where
  "getStudentsByClass rt ds sinifId =
     ([Invoke ''getStudentsByClass'', Submit SelectStudentsByClass (JArr [sinifId])],
      rows_callback rt (db_all ds SelectStudentsByClass (JArr [sinifId])))"

definition searchStudents :: "runtime \<Rightarrow> data_store \<Rightarrow> json \<Rightarrow> tool_result io" where
  "searchStudents rt ds searchTerm =
     (let searchPattern = JStr (''%'' @ to_string rt searchTerm @ ''%'')
      in ([Invoke ''searchStudents'',
           Submit SelectSearchStudents (JArr [searchPattern, searchPattern, searchPattern])],
          rows_callback rt
            (db_all ds SelectSearchStudents (JArr [searchPattern, searchPattern, searchPattern]))))"

text \<open>
  \<open>genelOrtalama\<close>: the mean of the rows' \<open>ders_ortalama\<close> when there is a row,
  and 0 otherwise.
\<close>

definition genelOrtalama :: "runtime \<Rightarrow> json list \<Rightarrow> json" where
  "genelOrtalama rt rows = (if length rows > 0 then average rt rows else JNum 0)"

definition getStudentAverage :: "runtime \<Rightarrow> data_store \<Rightarrow> json \<Rightarrow> tool_result io" where
  "getStudentAverage rt ds ident =
     ([Invoke ''getStudentAverage'', Submit SelectStudentAverage (JArr [ident])],
      (case db_all ds SelectStudentAverage (JArr [ident]) of
         Inl err \<Rightarrow> Threw err
       | Inr rows \<Rightarrow>
           Returned (resolve_data rt
             (JObj [(''genel_ortalama'', JStr (toFixed2 rt (genelOrtalama rt rows))),
                    (''ders_ortalamalari'', JArr rows)]))))"

definition sadece_select :: string where
  "sadece_select = ''Sadece SELECT sorgular'' @ dotless_i @ '' desteklenir''"

text \<open>
  \<open>customQuery(query, params = [])\<close>: the default applies to an \<open>undefined\<close>
  argument. \<open>query.trim()\<close> on anything but a string throws a \<open>TypeError\<close>: a
  property cannot be read of \<open>undefined\<close> or \<open>null\<close>, and no other value has
  a \<open>trim\<close> to call.
\<close>

definition trim_error :: "json \<Rightarrow> js_error" where
  "trim_error v =
     (if v = JUndefined \<or> v = JNull then
        TypeError (''Cannot read properties of '' @ parsed_type v @ '' (reading ''
                     @ [CHR 0x27] @ ''trim'' @ [CHR 0x27] @ '')'')
      else TypeError ''query.trim is not a function'')"

definition default_params :: "json \<Rightarrow> json" where
  "default_params p = (if p = JUndefined then JArr [] else p)"

definition is_select :: "runtime \<Rightarrow> string \<Rightarrow> bool" where
  "is_select rt q = startsWith (toUpperCase rt (trim rt q)) ''SELECT''"

definition customQuery :: "runtime \<Rightarrow> data_store \<Rightarrow> json \<Rightarrow> json \<Rightarrow> tool_result io" where
  "customQuery rt ds query params =
     (case query of
        JStr q \<Rightarrow>
          (if \<not> is_select rt q then
             ([Invoke ''customQuery''], Threw (Error sadece_select))
           else
             ([Invoke ''customQuery'', Submit (CustomSQL q) (default_params params)],
              rows_callback rt (db_all ds (CustomSQL q) (default_params params))))
      | _ \<Rightarrow> ([Invoke ''customQuery''], Threw (trim_error query)))"

section \<open>The tool list and the tool-call handler of app.js\<close>

definition GET_ALL_STUDENTS :: string where "GET_ALL_STUDENTS = ''get_all_students''"
definition GET_STUDENT_BY_ID :: string where "GET_STUDENT_BY_ID = ''get_student_by_id''"
definition GET_STUDENT_GRADES :: string where "GET_STUDENT_GRADES = ''get_student_grades''"
definition GET_STUDENT_ATTENDANCE :: string where "GET_STUDENT_ATTENDANCE = ''get_student_attendance''"
definition GET_STUDENT_PAYMENTS :: string where "GET_STUDENT_PAYMENTS = ''get_student_payments''"
definition GET_STUDENTS_BY_CLASS :: string where "GET_STUDENTS_BY_CLASS = ''get_students_by_class''"
definition SEARCH_STUDENTS :: string where "SEARCH_STUDENTS = ''search_students''"
definition GET_STUDENT_AVERAGE :: string where "GET_STUDENT_AVERAGE = ''get_student_average''"
definition ADD_STUDENT :: string where "ADD_STUDENT = ''add_student''"
definition UPDATE_STUDENT :: string where "UPDATE_STUDENT = ''update_student''"
definition DELETE_STUDENT :: string where "DELETE_STUDENT = ''delete_student''"
definition CUSTOM_QUERY :: string where "CUSTOM_QUERY = ''custom_query''"

text \<open>The values of the \<open>ToolName\<close> object, in the order of its declaration.\<close>

definition ToolName :: "string list" where
  "ToolName =
     [GET_ALL_STUDENTS, GET_STUDENT_BY_ID, GET_STUDENT_GRADES, GET_STUDENT_ATTENDANCE,
      GET_STUDENT_PAYMENTS, GET_STUDENTS_BY_CLASS, SEARCH_STUDENTS, GET_STUDENT_AVERAGE,
      ADD_STUDENT, UPDATE_STUDENT, DELETE_STUDENT, CUSTOM_QUERY]"

definition StudentIdSchema :: zod_object where
  "StudentIdSchema = [(''id'', ZDescribe ZNumber (O_uml @ g_breve @ ''renci ID''))]"

definition SearchSchema :: zod_object where
  "SearchSchema = [(''search'', ZDescribe ZString ''Arama terimi'')]"

definition ClassIdSchema :: zod_object where
  "ClassIdSchema =
     [(''sinif_id'', ZDescribe ZNumber (''S'' @ dotless_i @ ''n'' @ dotless_i @ ''f ID''))]"

definition CustomQuerySchema :: zod_object where
  "CustomQuerySchema =
     [(''query'', ZDescribe ZString ''SQL SELECT sorgusu''),
      (''params'', ZDescribe (ZOptional (ZArray ZString)) ''Sorgu parametreleri'')]"

text \<open>
  An entry of a tool list. In app.js the input shape is the literal \<open>{}\<close> or
  \<open>zodToJsonSchema\<close> of a schema.
\<close>

record 'shape tool =
  name :: string
  description :: string
  inputSchema :: 'shape

datatype input_shape = EmptyObject | zodToJsonSchema zod_object

definition ListTools_handler :: "input_shape tool list" where
  "ListTools_handler =
     [\<lparr>name = GET_ALL_STUDENTS,
       description = ''T'' @ u_uml @ ''m aktif '' @ o_uml @ g_breve @ ''rencileri s'' @ dotless_i
         @ ''n'' @ dotless_i @ ''f bilgileriyle birlikte getir'',
       inputSchema = EmptyObject\<rparr>,
      \<lparr>name = GET_STUDENT_BY_ID,
       description = ''ID ile '' @ o_uml @ g_breve @ ''renci bilgilerini getir'',
       inputSchema = zodToJsonSchema StudentIdSchema\<rparr>,
      \<lparr>name = GET_STUDENT_GRADES,
       description = O_uml @ g_breve @ ''rencinin notlar'' @ dotless_i @ ''n'' @ dotless_i @ '' getir'',
       inputSchema = zodToJsonSchema StudentIdSchema\<rparr>,
      \<lparr>name = GET_STUDENT_ATTENDANCE,
       description = O_uml @ g_breve @ ''rencinin devams'' @ dotless_i @ ''zl'' @ dotless_i
         @ ''k bilgilerini getir'',
       inputSchema = zodToJsonSchema StudentIdSchema\<rparr>,
      \<lparr>name = GET_STUDENT_PAYMENTS,
       description = O_uml @ g_breve @ ''rencinin '' @ o_uml @ ''deme bilgilerini getir'',
       inputSchema = zodToJsonSchema StudentIdSchema\<rparr>,
      \<lparr>name = GET_STUDENTS_BY_CLASS,
       description = ''S'' @ dotless_i @ ''n'' @ dotless_i @ ''fa g'' @ o_uml @ ''re '' @ o_uml
         @ g_breve @ ''rencileri getir'',
       inputSchema = zodToJsonSchema ClassIdSchema\<rparr>,
      \<lparr>name = SEARCH_STUDENTS,
       description = O_uml @ g_breve @ ''renci ara (isim, soyisim, TC)'',
       inputSchema = zodToJsonSchema SearchSchema\<rparr>,
      \<lparr>name = GET_STUDENT_AVERAGE,
       description = O_uml @ g_breve @ ''rencinin not ortalamas'' @ dotless_i @ ''n'' @ dotless_i
         @ '' getir'',
       inputSchema = zodToJsonSchema StudentIdSchema\<rparr>,
      \<lparr>name = CUSTOM_QUERY,
       description = O_uml @ ''zel SELECT sorgusu '' @ c_cedilla @ ''al'' @ dotless_i @ s_cedilla
         @ ''t'' @ dotless_i @ ''r'',
       inputSchema = zodToJsonSchema CustomQuerySchema\<rparr>]"

text \<open>
  \<open>const v = Schema.parse(args); return await f(v.field)\<close>: a failed parse throws
  before the tool function is entered.
\<close>

definition validated :: "zod_object \<Rightarrow> json \<Rightarrow> (json \<Rightarrow> tool_result io) \<Rightarrow> tool_result io" where
  "validated schema args k =
     (case zod_parse schema args of Inl err \<Rightarrow> ([], Threw err) | Inr v \<Rightarrow> k v)"

text \<open>The \<open>switch (name)\<close> inside the \<open>try\<close> of the tool-call handler.\<close>

definition call_tool_switch :: "runtime \<Rightarrow> data_store \<Rightarrow> string \<Rightarrow> json \<Rightarrow> tool_result io" where
  "call_tool_switch rt ds nm args =
     (if nm = GET_ALL_STUDENTS then getAllStudents rt ds
      else if nm = GET_STUDENT_BY_ID then
        validated StudentIdSchema args (\<lambda>v. getStudentById rt ds (get_property v ''id''))
      else if nm = GET_STUDENT_GRADES then
        validated StudentIdSchema args (\<lambda>v. getStudentGrades rt ds (get_property v ''id''))
      else if nm = GET_STUDENT_ATTENDANCE then
        validated StudentIdSchema args (\<lambda>v. getStudentAttendance rt ds (get_property v ''id''))
      else if nm = GET_STUDENT_PAYMENTS then
        validated StudentIdSchema args (\<lambda>v. getStudentPayments rt ds (get_property v ''id''))
      else if nm = GET_STUDENTS_BY_CLASS then
        validated ClassIdSchema args (\<lambda>v. getStudentsByClass rt ds (get_property v ''sinif_id''))
      else if nm = SEARCH_STUDENTS then
        validated SearchSchema args (\<lambda>v. searchStudents rt ds (get_property v ''search''))
      else if nm = GET_STUDENT_AVERAGE then
        validated StudentIdSchema args (\<lambda>v. getStudentAverage rt ds (get_property v ''id''))
      else if nm = CUSTOM_QUERY then
        validated CustomQuerySchema args
          (\<lambda>v. customQuery rt ds (get_property v ''query'') (get_property v ''params''))
      else ([], Threw (Error (''Unknown tool: '' @ nm))))"

text \<open>The labels of the switch's cases, in order.\<close>

definition switch_cases :: "string list" where
  "switch_cases =
     [GET_ALL_STUDENTS, GET_STUDENT_BY_ID, GET_STUDENT_GRADES, GET_STUDENT_ATTENDANCE,
      GET_STUDENT_PAYMENTS, GET_STUDENTS_BY_CLASS, SEARCH_STUDENTS, GET_STUDENT_AVERAGE,
      CUSTOM_QUERY]"

text \<open>
  The handler: the switch under \<open>try\<close>, and the \<open>catch\<close> that turns whatever was
  thrown into \<open>{content: [{type: "text", text: `Error: ${error.message}`}], isError: true}\<close>.
\<close>

definition error_result :: "string \<Rightarrow> tool_result" where
  "error_result t = \<lparr>content = [Text t], isError = Some True\<rparr>"

definition CallTool_handler :: "runtime \<Rightarrow> data_store \<Rightarrow> string \<Rightarrow> json \<Rightarrow> tool_result io" where
  "CallTool_handler rt ds nm args =
     (case call_tool_switch rt ds nm args of
        (tr, Returned r) \<Rightarrow> (tr, Returned r)
      | (tr, Threw err) \<Rightarrow> (tr, Returned (error_result (''Error: '' @ message rt err))))"

section \<open>The tool list and the tool-call handler of mcp-server.js\<close>

text \<open>
  The input shapes of mcp-server.js are JSON Schema literals of type \<open>object\<close>: the
  properties with their type and description, and the required keys (none for
  \<open>get_all_students\<close>, which has no \<open>required\<close>).
\<close>

datatype schema_type = TInteger | TString | TBoolean | TArray schema_type

datatype json_property = Property schema_type string

record object_schema =
  properties :: "(string \<times> json_property) list"
  required :: "string list"

definition mcp_ListTools_handler :: "object_schema tool list" where
  "mcp_ListTools_handler =
     [\<lparr>name = ''get_all_students'',
       description = ''T'' @ u_uml @ ''m aktif '' @ o_uml @ g_breve @ ''rencileri s'' @ dotless_i
         @ ''n'' @ dotless_i @ ''f bilgileriyle birlikte getir'',
       inputSchema =
         \<lparr>properties =
           [],
          required = []\<rparr>\<rparr>,
      \<lparr>name = ''get_student_by_id'',
       description = ''ID ile '' @ o_uml @ g_breve @ ''renci bilgilerini getir'',
       inputSchema =
         \<lparr>properties =
           [(''id'', Property TInteger (O_uml @ g_breve @ ''renci ID''))],
          required = [''id'']\<rparr>\<rparr>,
      \<lparr>name = ''get_student_grades'',
       description = O_uml @ g_breve @ ''rencinin notlar'' @ dotless_i @ ''n'' @ dotless_i @ '' getir'',
       inputSchema =
         \<lparr>properties =
           [(''id'', Property TInteger (O_uml @ g_breve @ ''renci ID''))],
          required = [''id'']\<rparr>\<rparr>,
      \<lparr>name = ''get_student_attendance'',
       description = O_uml @ g_breve @ ''rencinin devams'' @ dotless_i @ ''zl'' @ dotless_i
         @ ''k bilgilerini getir'',
       inputSchema =
         \<lparr>properties =
           [(''id'', Property TInteger (O_uml @ g_breve @ ''renci ID''))],
          required = [''id'']\<rparr>\<rparr>,
      \<lparr>name = ''get_student_payments'',
       description = O_uml @ g_breve @ ''rencinin '' @ o_uml @ ''deme bilgilerini getir'',
       inputSchema =
         \<lparr>properties =
           [(''id'', Property TInteger (O_uml @ g_breve @ ''renci ID''))],
          required = [''id'']\<rparr>\<rparr>,
      \<lparr>name = ''get_students_by_class'',
       description = ''S'' @ dotless_i @ ''n'' @ dotless_i @ ''fa g'' @ o_uml @ ''re '' @ o_uml
         @ g_breve @ ''rencileri getir'',
       inputSchema =
         \<lparr>properties =
           [(''sinif_id'', Property TInteger (''S'' @ dotless_i @ ''n'' @ dotless_i @ ''f ID''))],
          required = [''sinif_id'']\<rparr>\<rparr>,
      \<lparr>name = ''search_students'',
       description = O_uml @ g_breve @ ''renci ara (isim, soyisim, TC)'',
       inputSchema =
         \<lparr>properties =
           [(''search'', Property TString (''Arama terimi''))],
          required = [''search'']\<rparr>\<rparr>,
      \<lparr>name = ''get_student_average'',
       description = O_uml @ g_breve @ ''rencinin not ortalamas'' @ dotless_i @ ''n'' @ dotless_i
         @ '' getir'',
       inputSchema =
         \<lparr>properties =
           [(''id'', Property TInteger (O_uml @ g_breve @ ''renci ID''))],
          required = [''id'']\<rparr>\<rparr>,
      \<lparr>name = ''add_student'',
       description = ''Yeni '' @ o_uml @ g_breve @ ''renci ekle'',
       inputSchema =
         \<lparr>properties =
           [(''tc_no'', Property TString (''TC Kimlik No'')),
            (''ad'', Property TString (''Ad'')),
            (''soyad'', Property TString (''Soyad'')),
            (''dogum_tarihi'', Property TString (''Do'' @ g_breve @ ''um Tarihi (YYYY-MM-DD)'')),
            (''cinsiyet'', Property TString (''Cinsiyet (E/K)'')),
            (''telefon'', Property TString (''Telefon'')),
            (''email'', Property TString (''Email'')),
            (''adres'', Property TString (''Adres'')),
            (''veli_adi'', Property TString (''Veli Ad'' @ dotless_i)),
            (''veli_telefonu'', Property TString (''Veli Telefonu'')),
            (''sinif_id'', Property TInteger (''S'' @ dotless_i @ ''n'' @ dotless_i @ ''f ID''))],
          required = [''tc_no'', ''ad'', ''soyad'', ''dogum_tarihi'', ''cinsiyet'']\<rparr>\<rparr>,
      \<lparr>name = ''update_student'',
       description = O_uml @ g_breve @ ''renci bilgilerini g'' @ u_uml @ ''ncelle'',
       inputSchema =
         \<lparr>properties =
           [(''id'', Property TInteger (O_uml @ g_breve @ ''renci ID'')),
            (''tc_no'', Property TString (''TC Kimlik No'')),
            (''ad'', Property TString (''Ad'')),
            (''soyad'', Property TString (''Soyad'')),
            (''dogum_tarihi'', Property TString (''Do'' @ g_breve @ ''um Tarihi (YYYY-MM-DD)'')),
            (''cinsiyet'', Property TString (''Cinsiyet (E/K)'')),
            (''telefon'', Property TString (''Telefon'')),
            (''email'', Property TString (''Email'')),
            (''adres'', Property TString (''Adres'')),
            (''veli_adi'', Property TString (''Veli Ad'' @ dotless_i)),
            (''veli_telefonu'', Property TString (''Veli Telefonu'')),
            (''sinif_id'', Property TInteger (''S'' @ dotless_i @ ''n'' @ dotless_i @ ''f ID'')),
            (''aktif'', Property TBoolean (''Aktif durumu''))],
          required = [''id'']\<rparr>\<rparr>,
      \<lparr>name = ''delete_student'',
       description = O_uml @ g_breve @ ''renci sil (soft delete)'',
       inputSchema =
         \<lparr>properties =
           [(''id'', Property TInteger (O_uml @ g_breve @ ''renci ID''))],
          required = [''id'']\<rparr>\<rparr>,
      \<lparr>name = ''custom_query'',
       description = O_uml @ ''zel SELECT sorgusu '' @ c_cedilla @ ''al'' @ dotless_i @ s_cedilla
         @ ''t'' @ dotless_i @ ''r'',
       inputSchema =
         \<lparr>properties =
           [(''query'', Property TString (''SQL SELECT sorgusu'')),
            (''params'', Property (TArray TString) (''Sorgu parametreleri''))],
          required = [''query'']\<rparr>\<rparr>]"

text \<open>Whether a value has the type a property declares, and arguments the shape.\<close>

fun has_type :: "schema_type \<Rightarrow> json \<Rightarrow> bool" where
  "has_type TInteger v = (case v of JNum n \<Rightarrow> n \<in> \<int> | _ \<Rightarrow> False)"
| "has_type TString v = (case v of JStr s \<Rightarrow> True | _ \<Rightarrow> False)"
| "has_type TBoolean v = (case v of JBool b \<Rightarrow> True | _ \<Rightarrow> False)"
| "has_type (TArray t) v = (case v of JArr xs \<Rightarrow> list_all (has_type t) xs | _ \<Rightarrow> False)"

fun property_ok :: "(string \<times> json) list \<Rightarrow> string \<times> json_property \<Rightarrow> bool" where
  "property_ok kvs (k, Property t d) = (member kvs k = JUndefined \<or> has_type t (member kvs k))"

definition conforms :: "object_schema \<Rightarrow> json \<Rightarrow> bool" where
  "conforms sch v =
     (case v of
        JObj kvs \<Rightarrow>
          list_all (\<lambda>k. member kvs k \<noteq> JUndefined) (required sch) \<and>
          list_all (property_ok kvs) (properties sch)
      | _ \<Rightarrow> False)"

text \<open>
  The environment of mcp-server.js: \<open>API_BASE_URL\<close>, and what an axios request
  gives: the \<open>data\<close> of the response, or the error axios throws.
\<close>

record mcp_env =
  API_BASE_URL :: string
  axios :: "http_request \<Rightarrow> js_error + json"

definition http_tool :: "runtime \<Rightarrow> mcp_env \<Rightarrow> http_request \<Rightarrow> tool_result io" where
  "http_tool rt env req =
     ([Http req],
      (case axios env req of
         Inl err \<Rightarrow> Threw err
       | Inr d \<Rightarrow> Returned \<lparr>content = [Text (JSON_stringify rt d)], isError = None\<rparr>))"

text \<open>
  \<open>args.key\<close>: a \<open>TypeError\<close> when \<open>args\<close> is \<open>undefined\<close> or \<open>null\<close>. The
  protocol layer lets only an object or \<open>undefined\<close> through as \<open>arguments\<close>.
\<close>

definition args_get :: "json \<Rightarrow> string \<Rightarrow> js_error + json" where
  "args_get args k =
     (if args = JUndefined \<or> args = JNull then
        Inl (TypeError (''Cannot read properties of '' @ parsed_type args @ '' (reading ''
                          @ [CHR 0x27] @ k @ [CHR 0x27] @ '')''))
      else Inr (get_property args k))"

definition with_arg :: "json \<Rightarrow> string \<Rightarrow> (json \<Rightarrow> tool_result io) \<Rightarrow> tool_result io" where
  "with_arg args k f = (case args_get args k of Inl err \<Rightarrow> ([], Threw err) | Inr v \<Rightarrow> f v)"

fun truthy :: "json \<Rightarrow> bool" where
  "truthy JUndefined = False"
| "truthy JNull = False"
| "truthy (JBool b) = b"
| "truthy (JNum n) = (n \<noteq> 0)"
| "truthy (JStr s) = (s \<noteq> [])"
| "truthy (JArr xs) = True"
| "truthy (JObj kvs) = True"

definition bilinmeyen_arac :: string where
  "bilinmeyen_arac = ''Bilinmeyen ara'' @ c_cedilla @ '': ''"

definition mcp_call_tool_switch :: "runtime \<Rightarrow> mcp_env \<Rightarrow> string \<Rightarrow> json \<Rightarrow> tool_result io" where
  "mcp_call_tool_switch rt env nm args =
     (if nm = ''get_all_students'' then
        http_tool rt env (GET (API_BASE_URL env @ ''/ogrenciler''))
      else if nm = ''get_student_by_id'' then
        with_arg args ''id'' (\<lambda>v.
          http_tool rt env (GET (API_BASE_URL env @ ''/ogrenciler/'' @ to_string rt v)))
      else if nm = ''get_student_grades'' then
        with_arg args ''id'' (\<lambda>v.
          http_tool rt env
            (GET (API_BASE_URL env @ ''/ogrenciler/'' @ to_string rt v @ ''/notlar'')))
      else if nm = ''get_student_attendance'' then
        with_arg args ''id'' (\<lambda>v.
          http_tool rt env
            (GET (API_BASE_URL env @ ''/ogrenciler/'' @ to_string rt v @ ''/devamsizlik'')))
      else if nm = ''get_student_payments'' then
        with_arg args ''id'' (\<lambda>v.
          http_tool rt env
            (GET (API_BASE_URL env @ ''/ogrenciler/'' @ to_string rt v @ ''/odemeler'')))
      else if nm = ''get_students_by_class'' then
        with_arg args ''sinif_id'' (\<lambda>v.
          http_tool rt env
            (GET (API_BASE_URL env @ ''/siniflar/'' @ to_string rt v @ ''/ogrenciler'')))
      else if nm = ''search_students'' then
        with_arg args ''search'' (\<lambda>v.
          http_tool rt env (GET (API_BASE_URL env @ ''/ogrenciler/ara/'' @ to_string rt v)))
      else if nm = ''get_student_average'' then
        with_arg args ''id'' (\<lambda>v.
          http_tool rt env
            (GET (API_BASE_URL env @ ''/ogrenciler/'' @ to_string rt v @ ''/ortalama'')))
      else if nm = ''add_student'' then
        http_tool rt env (POST (API_BASE_URL env @ ''/ogrenciler'') args)
      else if nm = ''update_student'' then
        with_arg args ''id'' (\<lambda>v.
          http_tool rt env (PUT (API_BASE_URL env @ ''/ogrenciler/'' @ to_string rt v) args))
      else if nm = ''delete_student'' then
        with_arg args ''id'' (\<lambda>v.
          http_tool rt env (DELETE (API_BASE_URL env @ ''/ogrenciler/'' @ to_string rt v)))
      else if nm = ''custom_query'' then
        with_arg args ''query'' (\<lambda>q.
          with_arg args ''params'' (\<lambda>p.
            http_tool rt env
              (POST (API_BASE_URL env @ ''/custom-query'')
                 (JObj [(''query'', q), (''params'', if truthy p then p else JArr [])]))))
      else ([], Threw (Error (bilinmeyen_arac @ nm))))"

definition mcp_switch_cases :: "string list" where
  "mcp_switch_cases =
     [''get_all_students'', ''get_student_by_id'', ''get_student_grades'',
      ''get_student_attendance'', ''get_student_payments'', ''get_students_by_class'',
      ''search_students'', ''get_student_average'', ''add_student'', ''update_student'',
      ''delete_student'', ''custom_query'']"

text \<open>The handler: its \<open>catch\<close> answers \<open>`Hata: ${error.message}`\<close> with \<open>isError: true\<close>.\<close>

definition mcp_CallTool_handler :: "runtime \<Rightarrow> mcp_env \<Rightarrow> string \<Rightarrow> json \<Rightarrow> tool_result io" where
  "mcp_CallTool_handler rt env nm args =
     (case mcp_call_tool_switch rt env nm args of
        (tr, Returned r) \<Rightarrow> (tr, Returned r)
      | (tr, Threw err) \<Rightarrow> (tr, Returned (error_result (''Hata: '' @ message rt err))))"

section \<open>The earlier tool list and tool-call handler in src/app.js\<close>

text \<open>
  src/app.js holds two versions of the server. The one above is the second (from line
  270 on). The first (lines 1 to 270) lists two tools and has two cases, and its case
  for \<open>get_student_by_id\<close> calls \<open>getStudentById(args.id)\<close> without parsing.
\<close>

definition draft_ListTools_handler :: "input_shape tool list" where
  "draft_ListTools_handler =
     [\<lparr>name = GET_ALL_STUDENTS,
       description = ''T'' @ u_uml @ ''m aktif '' @ o_uml @ g_breve @ ''rencileri s'' @ dotless_i
         @ ''n'' @ dotless_i @ ''f bilgileriyle birlikte getir'',
       inputSchema = EmptyObject\<rparr>,
      \<lparr>name = GET_STUDENT_BY_ID,
       description = ''ID ile '' @ o_uml @ g_breve @ ''renci bilgilerini getir'',
       inputSchema =
         zodToJsonSchema [(''id'', ZDescribe ZNumber (O_uml @ g_breve @ ''renci ID''))]\<rparr>]"

definition draft_call_tool_switch :: "runtime \<Rightarrow> data_store \<Rightarrow> string \<Rightarrow> json \<Rightarrow> tool_result io" where
  "draft_call_tool_switch rt ds nm args =
     (if nm = GET_ALL_STUDENTS then getAllStudents rt ds
      else if nm = GET_STUDENT_BY_ID then
        with_arg args ''id'' (\<lambda>v. getStudentById rt ds v)
      else ([], Threw (Error (''Unknown tool: '' @ nm))))"

definition draft_CallTool_handler :: "runtime \<Rightarrow> data_store \<Rightarrow> string \<Rightarrow> json \<Rightarrow> tool_result io" where
  "draft_CallTool_handler rt ds nm args =
     (case draft_call_tool_switch rt ds nm args of
        (tr, Returned r) \<Rightarrow> (tr, Returned r)
      | (tr, Threw err) \<Rightarrow> (tr, Returned (error_result (''Error: '' @ message rt err))))"

section \<open>REST routes\<close>

text \<open>
  \<open>app.post('/api/custom-query')\<close>, the same in app.js and in the REST server.
  \<open>const {query, params = []} = req.body\<close> throws on a body that is \<open>undefined\<close>
  or \<open>null\<close>; \<open>query.trim()\<close> throws on anything but a string.
\<close>

definition post_custom_query :: "runtime \<Rightarrow> data_store \<Rightarrow> json \<Rightarrow> unit io" where
  "post_custom_query rt ds body =
     (if body = JUndefined \<or> body = JNull then
        ([], Threw (TypeError (''Cannot destructure property '' @ [CHR 0x27] @ ''query''
                                 @ [CHR 0x27] @ '' of '' @ [CHR 0x27] @ ''req.body'' @ [CHR 0x27]
                                 @ '' as it is '' @ parsed_type body @ ''.'')))
      else
        (case get_property body ''query'' of
           JStr q \<Rightarrow>
             (if \<not> is_select rt q then
                ([Reply 400 (JObj [(''error'', JStr sadece_select)])], Returned ())
              else
                ([Submit (CustomSQL q) (default_params (get_property body ''params'')),
                  (case db_all ds (CustomSQL q) (default_params (get_property body ''params'')) of
                     Inl err \<Rightarrow> Reply 500 (JObj [(''error'', JStr (message rt err))])
                   | Inr rows \<Rightarrow> Reply 200 (JObj [(''data'', JArr rows)]))],
                 Returned ()))
         | _ \<Rightarrow> ([], Threw (trim_error (get_property body ''query'')))))"

text \<open>
  \<open>app.get('/api/ogrenciler/:id/ortalama')\<close>. An identifier is resolved in the scope
  of the place that names it; one that no scope declares throws a \<open>ReferenceError\<close>
  (Node's global object has no property \<open>genel_ortalama\<close> either).
  A binding holds a JSON value or something the model does not look into (a function,
  a module, \<open>req\<close>, \<open>res\<close>).
\<close>

datatype binding = Value json | Opaque

definition resolve_identifier :: "(string \<times> binding) list \<Rightarrow> string \<Rightarrow> binding outcome" where
  "resolve_identifier scope x =
     (case map_of scope x of
        None \<Rightarrow> Threw (ReferenceError (x @ '' is not defined''))
      | Some b \<Rightarrow> Returned b)"

text \<open>The module-level declarations (imports, constants, functions) of the two files.\<close>

definition server_js_globals :: "string list" where
  "server_js_globals = [''express'', ''sqlite3'', ''path'', ''app'', ''db'', ''PORT'']"

definition app_js_globals :: "string list" where
  "app_js_globals =
     [''express'', ''sqlite3'', ''Server'', ''SSEServerTransport'', ''CallToolRequestSchema'',
      ''ListPromptsRequestSchema'', ''ListToolsRequestSchema'', ''GetPromptRequestSchema'',
      ''fileURLToPath'', ''dirname'', ''join'', ''readFileSync'', ''z'', ''zodToJsonSchema'',
      ''__filename'', ''__dirname'', ''instructions'', ''app'', ''db'', ''StudentSchema'',
      ''ToolName'', ''StudentIdSchema'', ''SearchSchema'', ''ClassIdSchema'',
      ''CustomQuerySchema'', ''PromptName'', ''getAllStudents'', ''getStudentById'',
      ''getStudentGrades'', ''getStudentAttendance'', ''getStudentPayments'',
      ''getStudentsByClass'', ''searchStudents'', ''getStudentAverage'', ''customQuery'',
      ''createMCPServer'', ''transports'', ''PORT'']"

text \<open>
  The scope at \<open>res.json(...)\<close> inside the callback of \<open>db.all\<close>: the callback's
  \<open>genelOrtalama\<close>, \<open>err\<close> and \<open>rows\<close>, the route handler's \<open>query\<close>,
  \<open>req\<close> and \<open>res\<close>, then the module.
\<close>

definition ortalama_scope :: "string list \<Rightarrow> json list \<Rightarrow> json \<Rightarrow> (string \<times> binding) list" where
  "ortalama_scope globals rows g =
     [(''genelOrtalama'', Value g), (''err'', Value JNull), (''rows'', Value (JArr rows)),
      (''query'', Opaque), (''req'', Opaque), (''res'', Opaque)]
     @ map (\<lambda>x. (x, Opaque)) globals"

definition get_ortalama :: "runtime \<Rightarrow> data_store \<Rightarrow> string list \<Rightarrow> json \<Rightarrow> unit io" where
  "get_ortalama rt ds globals ident =
     (case db_all ds SelectStudentAverage (JArr [ident]) of
        Inl err \<Rightarrow>
          ([Submit SelectStudentAverage (JArr [ident]),
            Reply 500 (JObj [(''error'', JStr (message rt err))])],
           Returned ())
      | Inr rows \<Rightarrow>
          (case resolve_identifier (ortalama_scope globals rows (genelOrtalama rt rows)) ''genel_ortalama'' of
             Threw err \<Rightarrow> ([Submit SelectStudentAverage (JArr [ident])], Threw err)
           | Returned Opaque \<Rightarrow>
               ([Submit SelectStudentAverage (JArr [ident])],
                Threw (TypeError ''genel_ortalama.toFixed is not a function''))
           | Returned (Value v) \<Rightarrow>
               ([Submit SelectStudentAverage (JArr [ident]),
                 Reply 200
                   (JObj [(''data'',
                           JObj [(''genel_ortalama'', JStr (toFixed2 rt v)),
                                 (''ders_ortalamalari'', JArr rows)])])],
                Returned ())))"

text \<open>
  \<open>app.put('/api/ogrenciler/:id')\<close>. The table \<open>ogrenciler\<close> is a list of rows, a
  row gives each column its value, and \<open>JNull\<close> is SQL's NULL. The declaration of the
  table is not in the source, so what it decides is taken as it comes: when \<open>id = ?\<close>
  holds for a row's id and the route's \<open>:id\<close>, and which rows the table's constraints
  refuse (with the error text).
\<close>

type_synonym row = "string \<Rightarrow> json"










section \<open>A runtime, a store and an HTTP peer for worked examples\<close>

text \<open>
  The examples below run the handlers in this environment: \<open>trim\<close> and
  \<open>toUpperCase\<close> on ASCII, natural numbers printed in decimal, JSON printed
  without indentation, the \<open>ZodError\<close> message of Zod 3, an empty Data Store, and a
  REST peer that answers every request with \<open>{data: []}\<close>.
\<close>

definition is_space :: "char \<Rightarrow> bool" where
  "is_space c = (c \<in> set [CHR 0x20, CHR 0x09, CHR 0x0A, CHR 0x0B, CHR 0x0C, CHR 0x0D])"

definition ascii_trim :: "string \<Rightarrow> string" where
  "ascii_trim s = rev (dropWhile is_space (rev (dropWhile is_space s)))"

definition ascii_upper :: "char \<Rightarrow> char" where
  "ascii_upper c =
     (case map_of (zip ''abcdefghijklmnopqrstuvwxyz'' ''ABCDEFGHIJKLMNOPQRSTUVWXYZ'') c of
        None \<Rightarrow> c
      | Some u \<Rightarrow> u)"

function decimal :: "nat \<Rightarrow> string" where
  "decimal n =
     (if n < 10 then [''0123456789'' ! n]
      else decimal (n div 10) @ [''0123456789'' ! (n mod 10)])"
  by pat_completeness auto
termination
  by (relation "measure id") auto

fun show_json :: "json \<Rightarrow> string" where
  "show_json JUndefined = ''undefined''"
| "show_json JNull = ''null''"
| "show_json (JBool b) = (if b then ''true'' else ''false'')"
| "show_json (JNum n) = decimal (nat \<lfloor>n\<rfloor>)"
| "show_json (JStr s) = s"
| "show_json (JArr xs) = ''['' @ concat (map (\<lambda>x. show_json x @ '','') xs) @ '']''"
| "show_json (JObj kvs) =
     ''{'' @ concat (map (\<lambda>(k, v). k @ '':'' @ show_json v @ '','') kvs) @ ''}''"

text \<open>
  The message of a \<open>ZodError\<close> as Zod 3 gives it,
  \<open>JSON.stringify(this.issues, null, 2)\<close>: each issue an object with \<open>code\<close>,
  \<open>expected\<close>, \<open>received\<close>, \<open>path\<close> and \<open>message\<close>.
\<close>

definition newline :: string where
  "newline = [CHR 0x0A]"

fun join :: "string \<Rightarrow> string list \<Rightarrow> string" where
  "join sep [] = []"
| "join sep [x] = x"
| "join sep (x # y # ys) = x @ sep @ join sep (y # ys)"

fun path_elem_json :: "path_elem \<Rightarrow> string" where
  "path_elem_json (Key k) = quoted k"
| "path_elem_json (Index i) = decimal i"

definition path_json :: "path_elem list \<Rightarrow> string" where
  "path_json p =
     (if p = [] then ''[]''
      else ''['' @ newline
           @ join ('','' @ newline) (map (\<lambda>e. ''      '' @ path_elem_json e) p)
           @ newline @ ''    ]'')"

definition invalid_type_message :: "string \<Rightarrow> string \<Rightarrow> string" where
  "invalid_type_message e r =
     (if r = ''undefined'' then ''Required'' else ''Expected '' @ e @ '', received '' @ r)"

fun issue_json :: "zod_issue \<Rightarrow> string" where
  "issue_json (InvalidType p e r) =
     ''  {'' @ newline
     @ ''    '' @ quoted ''code'' @ '': '' @ quoted ''invalid_type'' @ '','' @ newline
     @ ''    '' @ quoted ''expected'' @ '': '' @ quoted e @ '','' @ newline
     @ ''    '' @ quoted ''received'' @ '': '' @ quoted r @ '','' @ newline
     @ ''    '' @ quoted ''path'' @ '': '' @ path_json p @ '','' @ newline
     @ ''    '' @ quoted ''message'' @ '': '' @ quoted (invalid_type_message e r) @ newline
     @ ''  }''"

definition ZodError_message :: "zod_issue list \<Rightarrow> string" where
  "ZodError_message issues =
     (if issues = [] then ''[]''
      else ''['' @ newline @ join ('','' @ newline) (map issue_json issues) @ newline @ '']'')"

definition sample_runtime :: runtime where
  "sample_runtime =
     \<lparr>trim = ascii_trim,
      toUpperCase = map ascii_upper,
      to_string = show_json,
      JSON_stringify = show_json,
      zod_message = ZodError_message,
      average = (\<lambda>rows. JNum 0),
      toFixed2 = show_json\<rparr>"

definition empty_store :: data_store where
  "empty_store = \<lparr>db_get = (\<lambda>s p. Inr None), db_all = (\<lambda>s p. Inr [])\<rparr>"




definition sample_peer :: mcp_env where
  "sample_peer =
     \<lparr>API_BASE_URL = ''http://localhost:3000/api'',
      axios = (\<lambda>r. Inr (JObj [(''data'', JArr [])]))\<rparr>"

section \<open>Properties of the tool list and of the tool-call handlers\<close>

lemmas ToolName_defs =
  GET_ALL_STUDENTS_def GET_STUDENT_BY_ID_def GET_STUDENT_GRADES_def
  GET_STUDENT_ATTENDANCE_def GET_STUDENT_PAYMENTS_def GET_STUDENTS_BY_CLASS_def
  SEARCH_STUDENTS_def GET_STUDENT_AVERAGE_def ADD_STUDENT_def UPDATE_STUDENT_def
  DELETE_STUDENT_def CUSTOM_QUERY_def

lemma listed_names: "map name ListTools_handler = switch_cases"
  by (simp add: ListTools_handler_def switch_cases_def)

lemma mcp_listed_names: "map name mcp_ListTools_handler = mcp_switch_cases"
  by (simp add: mcp_ListTools_handler_def mcp_switch_cases_def)

lemma switch_default:
  "nm \<notin> set switch_cases \<Longrightarrow>
     call_tool_switch rt ds nm args = ([], Threw (Error (''Unknown tool: '' @ nm)))"
  by (simp add: switch_cases_def call_tool_switch_def)

lemma mcp_switch_default:
  "nm \<notin> set mcp_switch_cases \<Longrightarrow>
     mcp_call_tool_switch rt env nm args = ([], Threw (Error (bilinmeyen_arac @ nm)))"
  by (simp add: mcp_switch_cases_def mcp_call_tool_switch_def)

lemma zod_parse_Inl: "zod_parse sch v = Inl e \<Longrightarrow> \<exists>issues. e = ZodError issues"
  by (auto simp: zod_parse_def split: json.splits if_splits)

lemma validated_not_default:
  assumes "\<And>v. fst (k v) \<noteq> []"
  shows "validated sch args k \<noteq> ([], Threw (Error m))"
proof (cases "zod_parse sch args")
  case (Inl e)
  then obtain issues where "e = ZodError issues" using zod_parse_Inl by blast
  with Inl show ?thesis by (simp add: validated_def)
next
  case (Inr v)
  with assms [of v] show ?thesis by (auto simp: validated_def)
qed

lemma customQuery_enters: "fst (customQuery rt ds q p) \<noteq> []"
  by (simp add: customQuery_def split: json.splits)

lemma with_arg_not_default:
  assumes "\<And>v. f v \<noteq> ([], Threw (Error m))"
  shows "with_arg args k f \<noteq> ([], Threw (Error m))"
proof (cases "args_get args k")
  case (Inl e)
  then show ?thesis by (auto simp: with_arg_def args_get_def split: if_splits)
next
  case (Inr v)
  with assms [of v] show ?thesis by (simp add: with_arg_def)
qed

lemma http_tool_enters: "http_tool rt env r \<noteq> ([], out)"
  by (simp add: http_tool_def)

lemma switch_branches:
  "call_tool_switch rt ds GET_ALL_STUDENTS args =
     getAllStudents rt ds"
  "call_tool_switch rt ds GET_STUDENT_BY_ID args =
     validated StudentIdSchema args (\<lambda>v. getStudentById rt ds (get_property v ''id''))"
  "call_tool_switch rt ds GET_STUDENT_GRADES args =
     validated StudentIdSchema args (\<lambda>v. getStudentGrades rt ds (get_property v ''id''))"
  "call_tool_switch rt ds GET_STUDENT_ATTENDANCE args =
     validated StudentIdSchema args (\<lambda>v. getStudentAttendance rt ds (get_property v ''id''))"
  "call_tool_switch rt ds GET_STUDENT_PAYMENTS args =
     validated StudentIdSchema args (\<lambda>v. getStudentPayments rt ds (get_property v ''id''))"
  "call_tool_switch rt ds GET_STUDENTS_BY_CLASS args =
     validated ClassIdSchema args (\<lambda>v. getStudentsByClass rt ds (get_property v ''sinif_id''))"
  "call_tool_switch rt ds SEARCH_STUDENTS args =
     validated SearchSchema args (\<lambda>v. searchStudents rt ds (get_property v ''search''))"
  "call_tool_switch rt ds GET_STUDENT_AVERAGE args =
     validated StudentIdSchema args (\<lambda>v. getStudentAverage rt ds (get_property v ''id''))"
  "call_tool_switch rt ds CUSTOM_QUERY args =
     validated CustomQuerySchema args
       (\<lambda>v. customQuery rt ds (get_property v ''query'') (get_property v ''params''))"
  by (simp_all add: call_tool_switch_def ToolName_defs)

lemma switch_case_taken:
  assumes "nm \<in> set switch_cases"
  shows "call_tool_switch rt ds nm args \<noteq> ([], Threw (Error (''Unknown tool: '' @ nm)))"
proof -
  from assms consider
    "nm = GET_ALL_STUDENTS"
  | "nm = GET_STUDENT_BY_ID"
  | "nm = GET_STUDENT_GRADES"
  | "nm = GET_STUDENT_ATTENDANCE"
  | "nm = GET_STUDENT_PAYMENTS"
  | "nm = GET_STUDENTS_BY_CLASS"
  | "nm = SEARCH_STUDENTS"
  | "nm = GET_STUDENT_AVERAGE"
  | "nm = CUSTOM_QUERY"
    by (auto simp: switch_cases_def)
  then show ?thesis
  proof cases
  case 1
  then show ?thesis
    by (simp add: switch_branches getAllStudents_def)
next
  case 2
  then show ?thesis
    by (simp add: switch_branches validated_not_default getStudentById_def)
next
  case 3
  then show ?thesis
    by (simp add: switch_branches validated_not_default getStudentGrades_def)
next
  case 4
  then show ?thesis
    by (simp add: switch_branches validated_not_default getStudentAttendance_def)
next
  case 5
  then show ?thesis
    by (simp add: switch_branches validated_not_default getStudentPayments_def)
next
  case 6
  then show ?thesis
    by (simp add: switch_branches validated_not_default getStudentsByClass_def)
next
  case 7
  then show ?thesis
    by (simp add: switch_branches validated_not_default searchStudents_def Let_def)
next
  case 8
  then show ?thesis
    by (simp add: switch_branches validated_not_default getStudentAverage_def)
next
  case 9
  then show ?thesis
    by (simp add: switch_branches validated_not_default customQuery_enters)
  qed
qed

lemma mcp_switch_branches:
  "mcp_call_tool_switch rt env ''get_all_students'' args =
     http_tool rt env (GET (API_BASE_URL env @ ''/ogrenciler''))"
  "mcp_call_tool_switch rt env ''get_student_by_id'' args =
     with_arg args ''id'' (\<lambda>v.
       http_tool rt env (GET (API_BASE_URL env @ ''/ogrenciler/'' @ to_string rt v)))"
  "mcp_call_tool_switch rt env ''get_student_grades'' args =
     with_arg args ''id'' (\<lambda>v.
       http_tool rt env (GET (API_BASE_URL env @ ''/ogrenciler/'' @ to_string rt v @ ''/notlar'')))"
  "mcp_call_tool_switch rt env ''get_student_attendance'' args =
     with_arg args ''id'' (\<lambda>v.
       http_tool rt env (GET (API_BASE_URL env @ ''/ogrenciler/'' @ to_string rt v @ ''/devamsizlik'')))"
  "mcp_call_tool_switch rt env ''get_student_payments'' args =
     with_arg args ''id'' (\<lambda>v.
       http_tool rt env (GET (API_BASE_URL env @ ''/ogrenciler/'' @ to_string rt v @ ''/odemeler'')))"
  "mcp_call_tool_switch rt env ''get_students_by_class'' args =
     with_arg args ''sinif_id'' (\<lambda>v.
       http_tool rt env (GET (API_BASE_URL env @ ''/siniflar/'' @ to_string rt v @ ''/ogrenciler'')))"
  "mcp_call_tool_switch rt env ''search_students'' args =
     with_arg args ''search'' (\<lambda>v.
       http_tool rt env (GET (API_BASE_URL env @ ''/ogrenciler/ara/'' @ to_string rt v)))"
  "mcp_call_tool_switch rt env ''get_student_average'' args =
     with_arg args ''id'' (\<lambda>v.
       http_tool rt env (GET (API_BASE_URL env @ ''/ogrenciler/'' @ to_string rt v @ ''/ortalama'')))"
  "mcp_call_tool_switch rt env ''add_student'' args =
     http_tool rt env (POST (API_BASE_URL env @ ''/ogrenciler'') args)"
  "mcp_call_tool_switch rt env ''update_student'' args =
     with_arg args ''id'' (\<lambda>v.
       http_tool rt env (PUT (API_BASE_URL env @ ''/ogrenciler/'' @ to_string rt v) args))"
  "mcp_call_tool_switch rt env ''delete_student'' args =
     with_arg args ''id'' (\<lambda>v.
       http_tool rt env (DELETE (API_BASE_URL env @ ''/ogrenciler/'' @ to_string rt v)))"
  "mcp_call_tool_switch rt env ''custom_query'' args =
     with_arg args ''query'' (\<lambda>q.
       with_arg args ''params'' (\<lambda>p.
         http_tool rt env
           (POST (API_BASE_URL env @ ''/custom-query'')
              (JObj [(''query'', q), (''params'', if truthy p then p else JArr [])]))))"
  by (simp_all add: mcp_call_tool_switch_def)

lemma mcp_switch_case_taken:
  assumes "nm \<in> set mcp_switch_cases"
  shows "mcp_call_tool_switch rt env nm args \<noteq> ([], Threw (Error (bilinmeyen_arac @ nm)))"
proof -
  have "\<forall>n \<in> set mcp_switch_cases.
          mcp_call_tool_switch rt env n args \<noteq> ([], Threw (Error (bilinmeyen_arac @ n)))"
    unfolding mcp_switch_cases_def
    by (simp add: mcp_switch_branches with_arg_not_default http_tool_enters)
  with assms show ?thesis by blast
qed

lemma descriptions: 
  "list_all (\<lambda>t. name t \<noteq> [] \<and> description t \<noteq> []) ListTools_handler"
  "list_all (\<lambda>t. name t \<noteq> [] \<and> description t \<noteq> []) mcp_ListTools_handler"
  by (simp_all add: ListTools_handler_def mcp_ListTools_handler_def ToolName_defs O_uml_def)

lemma zod_check_path:
  "i \<in> set (zod_check s p v) \<Longrightarrow> take (length p) (issue_path i) = p"
proof (induction s p v arbitrary: i rule: zod_check.induct)
  case (1 p v)
  then show ?case by (auto split: json.splits)
next
  case (2 p v)
  then show ?case by (auto split: json.splits)
next
  case (3 s p v)
  show ?case
  proof (cases v)
    case (JArr xs)
    with "3.prems" obtain n x where nx: "(n, x) \<in> set (enumerate 0 xs)"
      and i: "i \<in> set (zod_check s (p @ [Index n]) x)"
      by auto
    from "3.IH" [OF JArr nx refl i] have "take (length (p @ [Index n])) (issue_path i) = p @ [Index n]" .
    then have "take (length p) (take (length (p @ [Index n])) (issue_path i)) = take (length p) (p @ [Index n])"
      by simp
    then show ?thesis by (simp add: min_def)
  qed (use "3.prems" in auto)
next
  case (4 s p v)
  then show ?case by (auto split: if_splits)
next
  case (5 s d p v)
  then show ?case by auto
qed

lemma validated_Inl:
  "zod_parse sch args = Inl err \<Longrightarrow> validated sch args k = ([], Threw err)"
  by (simp add: validated_def)

lemma tool_schema_cases:
  assumes "t \<in> set ListTools_handler" and "inputSchema t = zodToJsonSchema sch"
  shows "(name t = GET_STUDENT_BY_ID \<and> sch = StudentIdSchema) \<or>
         (name t = GET_STUDENT_GRADES \<and> sch = StudentIdSchema) \<or>
         (name t = GET_STUDENT_ATTENDANCE \<and> sch = StudentIdSchema) \<or>
         (name t = GET_STUDENT_PAYMENTS \<and> sch = StudentIdSchema) \<or>
         (name t = GET_STUDENTS_BY_CLASS \<and> sch = ClassIdSchema) \<or>
         (name t = SEARCH_STUDENTS \<and> sch = SearchSchema) \<or>
         (name t = GET_STUDENT_AVERAGE \<and> sch = StudentIdSchema) \<or>
         (name t = CUSTOM_QUERY \<and> sch = CustomQuerySchema)"
proof -
  have "\<forall>t \<in> set ListTools_handler. inputSchema t = zodToJsonSchema sch \<longrightarrow>
         ((name t = GET_STUDENT_BY_ID \<and> sch = StudentIdSchema) \<or>
         (name t = GET_STUDENT_GRADES \<and> sch = StudentIdSchema) \<or>
         (name t = GET_STUDENT_ATTENDANCE \<and> sch = StudentIdSchema) \<or>
         (name t = GET_STUDENT_PAYMENTS \<and> sch = StudentIdSchema) \<or>
         (name t = GET_STUDENTS_BY_CLASS \<and> sch = ClassIdSchema) \<or>
         (name t = SEARCH_STUDENTS \<and> sch = SearchSchema) \<or>
         (name t = GET_STUDENT_AVERAGE \<and> sch = StudentIdSchema) \<or>
         (name t = CUSTOM_QUERY \<and> sch = CustomQuerySchema))"
    unfolding ListTools_handler_def by simp
  with assms show ?thesis by blast
qed

lemma switch_rejects:
  assumes "t \<in> set ListTools_handler" and "inputSchema t = zodToJsonSchema sch"
    and "zod_parse sch args = Inl err"
  shows "call_tool_switch rt ds (name t) args = ([], Threw err)"
  using tool_schema_cases [OF assms(1,2)] assms(3)
  by (elim disjE conjE) (simp_all add: switch_branches validated_Inl)

lemma parse_student_id:
  "member kvs ''id'' = JNum n \<Longrightarrow>
     zod_parse StudentIdSchema (JObj kvs) = Inr (JObj [(''id'', JNum n)])"
  by (simp add: zod_parse_def shape_issues_def StudentIdSchema_def)

lemma customQuery_guard:
  "\<not> is_select rt q \<Longrightarrow>
     customQuery rt ds (JStr q) params = ([Invoke ''customQuery''], Threw (Error sadece_select))"
  by (simp add: customQuery_def)

lemma custom_query_parse:
  "member kvs ''query'' = JStr q \<Longrightarrow>
     zod_parse CustomQuerySchema (JObj kvs) =
       (if shape_issues CustomQuerySchema kvs = []
        then Inr (JObj (filter (\<lambda>(k, x). x \<noteq> JUndefined)
                     [(''query'', JStr q), (''params'', member kvs ''params'')]))
        else Inl (ZodError (shape_issues CustomQuerySchema kvs)))"
  by (simp add: zod_parse_def CustomQuerySchema_def)

lemma custom_query_call:
  assumes "\<not> is_select rt q" and "member kvs ''query'' = JStr q"
  shows "CallTool_handler rt ds CUSTOM_QUERY (JObj kvs) =
           (if shape_issues CustomQuerySchema kvs = []
            then ([Invoke ''customQuery''],
                  Returned \<lparr>content = [Text (''Error: '' @ sadece_select)], isError = Some True\<rparr>)
            else ([], Returned \<lparr>content =
                        [Text (''Error: '' @ zod_message rt (shape_issues CustomQuerySchema kvs))],
                      isError = Some True\<rparr>))"
  by (simp add: CallTool_handler_def switch_branches validated_def
      custom_query_parse [OF assms(2)] customQuery_guard [OF assms(1)] member_def
      error_result_def)

lemma post_custom_query_guard:
  assumes "\<not> is_select rt q" and "get_property body ''query'' = JStr q"
  shows "post_custom_query rt ds body =
           ([Reply 400 (JObj [(''error'', JStr sadece_select)])], Returned ())"
proof -
  from assms(2) have "body \<noteq> JUndefined" and "body \<noteq> JNull" by auto
  with assms show ?thesis by (simp add: post_custom_query_def)
qed

lemma string_includes_iff: "string_includes s p \<longleftrightarrow> (\<exists>a b. s = a @ p @ b)"
proof (induction s)
  case Nil
  then show ?case by auto
next
  case (Cons c cs)
  have sw: "startsWith (c # cs) p \<longleftrightarrow> (\<exists>b. c # cs = p @ b)"
    unfolding startsWith_def
    by (metis append_eq_conv_conj append_take_drop_id)
  show ?case
  proof
    assume "string_includes (c # cs) p"
    then consider "startsWith (c # cs) p" | "string_includes cs p" by auto
    then show "\<exists>a b. c # cs = a @ p @ b"
    proof cases
      case 1
      with sw obtain b where "c # cs = p @ b" by blast
      then have "c # cs = [] @ p @ b" by simp
      then show ?thesis by blast
    next
      case 2
      with Cons.IH obtain a b where "cs = a @ p @ b" by blast
      then have "c # cs = (c # a) @ p @ b" by simp
      then show ?thesis by blast
    qed
  next
    assume "\<exists>a b. c # cs = a @ p @ b"
    then obtain a b where ab: "c # cs = a @ p @ b" by blast
    show "string_includes (c # cs) p"
    proof (cases a)
      case Nil
      with ab have "\<exists>b. c # cs = p @ b" by auto
      with sw have "startsWith (c # cs) p" by blast
      then show ?thesis by simp
    next
      case (Cons x a')
      with ab have "cs = a' @ p @ b" by simp
      with Cons.IH show ?thesis by auto
    qed
  qed
qed

lemma string_includes_wrap:
  "string_includes s p \<Longrightarrow> string_includes (a @ s @ b) p"
proof -
  assume "string_includes s p"
  then obtain x y where "s = x @ p @ y" using string_includes_iff by blast
  then have "a @ s @ b = (a @ x) @ p @ (y @ b)" by simp
  then show ?thesis using string_includes_iff by blast
qed

lemma string_includes_self: "string_includes p p"
  using string_includes_iff [of p p] by (metis append_Nil append_Nil2)

lemma join_member:
  "x \<in> set xs \<Longrightarrow> \<exists>a b. join sep xs = a @ x @ b"
proof (induction sep xs rule: join.induct)
  case (1 sep)
  then show ?case by simp
next
  case (2 sep y)
  then have "join sep [y] = [] @ x @ []" by simp
  then show ?case by blast
next
  case (3 sep y z zs)
  show ?case
  proof (cases "x = y")
    case True
    then have "join sep (y # z # zs) = [] @ x @ (sep @ join sep (z # zs))" by simp
    then show ?thesis by blast
  next
    case False
    with "3.prems" have "x \<in> set (z # zs)" by simp
    with "3.IH" obtain a b where "join sep (z # zs) = a @ x @ b" by blast
    then have "join sep (y # z # zs) = (y @ sep @ a) @ x @ b" by simp
    then show ?thesis by blast
  qed
qed

lemma join_includes:
  assumes "x \<in> set xs" and "string_includes x p"
  shows "string_includes (join sep xs) p"
proof -
  from join_member [OF assms(1)] obtain a b where "join sep xs = a @ x @ b" by blast
  with string_includes_wrap [OF assms(2), of a b] show ?thesis by simp
qed

lemma path_json_includes:
  assumes "Key k \<in> set p"
  shows "string_includes (path_json p) (quoted k)"
proof -
  define f where "f = (\<lambda>e. ''      '' @ path_elem_json e)"
  from assms have ne: "p \<noteq> []" by auto
  have "string_includes (''      '' @ quoted k @ []) (quoted k)"
    by (rule string_includes_wrap [OF string_includes_self])
  then have el: "string_includes (f (Key k)) (quoted k)" by (simp add: f_def)
  from assms have "f (Key k) \<in> f ` set p" by (rule imageI)
  then have mem: "f (Key k) \<in> set (map f p)" by (simp only: set_map)
  from join_includes [OF mem el]
  have j: "string_includes (join ('','' @ newline) (map f p)) (quoted k)" .
  have eq: "path_json p = (''['' @ newline) @ join ('','' @ newline) (map f p) @ (newline @ ''    ]'')"
    using ne by (simp add: path_json_def f_def)
  show ?thesis
    unfolding eq by (rule string_includes_wrap [OF j])
qed

lemma issue_json_includes:
  assumes "Key k \<in> set (issue_path i)"
  shows "string_includes (issue_json i) (quoted k)"
proof (cases i)
  case (InvalidType p e r)
  with assms have "Key k \<in> set p" by simp
  from path_json_includes [OF this]
  have pj: "string_includes (path_json p) (quoted k)" .
  define pre where "pre = ''  {'' @ newline
     @ ''    '' @ quoted ''code'' @ '': '' @ quoted ''invalid_type'' @ '','' @ newline
     @ ''    '' @ quoted ''expected'' @ '': '' @ quoted e @ '','' @ newline
     @ ''    '' @ quoted ''received'' @ '': '' @ quoted r @ '','' @ newline
     @ ''    '' @ quoted ''path'' @ '': ''"
  define post where "post = '','' @ newline
     @ ''    '' @ quoted ''message'' @ '': '' @ quoted (invalid_type_message e r) @ newline
     @ ''  }''"
  have eq: "issue_json i = pre @ path_json p @ post"
    using InvalidType by (simp add: pre_def post_def)
  show ?thesis
    unfolding eq by (rule string_includes_wrap [OF pj])
qed

lemma ZodError_message_names_paths:
  assumes "i \<in> set issues" and "Key k \<in> set (issue_path i)"
  shows "string_includes (ZodError_message issues) (quoted k)"
proof -
  from assms(1) have ne: "issues \<noteq> []" by auto
  from assms(1) have "issue_json i \<in> issue_json ` set issues" by (rule imageI)
  then have mem: "issue_json i \<in> set (map issue_json issues)" by (simp only: set_map)
  from join_includes [OF mem issue_json_includes [OF assms(2)]]
  have j: "string_includes (join ('','' @ newline) (map issue_json issues)) (quoted k)" .
  have eq: "ZodError_message issues =
      (''['' @ newline) @ join ('','' @ newline) (map issue_json issues) @ (newline @ '']'')"
    using ne by (simp add: ZodError_message_def)
  show ?thesis
    unfolding eq by (rule string_includes_wrap [OF j])
qed

lemma sample_names_paths: "names_paths sample_runtime"
proof -
  have z: "zod_message sample_runtime = ZodError_message"
    by (simp add: sample_runtime_def)
  show ?thesis
    unfolding names_paths_def z using ZodError_message_names_paths by blast
qed

lemma fits_of_check: "zod_check s p v = [] \<Longrightarrow> fits s v"
proof (induction s p v rule: zod_check.induct)
  case (1 p v)
  then show ?case by (auto split: json.splits)
next
  case (2 p v)
  then show ?case by (auto split: json.splits)
next
  case (3 s p v)
  show ?case
  proof (cases v)
    case (JArr xs)
    have "fits s x" if "x \<in> set xs" for x
    proof -
      from that obtain n where "n < length xs" and "xs ! n = x"
        by (auto simp: in_set_conv_nth)
      then have nx: "(n, x) \<in> set (enumerate 0 xs)"
        by (simp add: in_set_enumerate_eq)
      with "3.prems" JArr have "zod_check s (p @ [Index n]) x = []" by auto
      from "3.IH" [OF JArr nx refl this] show ?thesis .
    qed
    with JArr show ?thesis by (simp add: list_all_iff)
  qed (use "3.prems" in auto)
next
  case (4 s p v)
  then show ?case by (auto split: if_splits)
next
  case (5 s d p v)
  then show ?case by auto
qed

lemma draft_branch:
  "draft_call_tool_switch rt ds GET_STUDENT_BY_ID args =
     with_arg args ''id'' (\<lambda>v. getStudentById rt ds v)"
  by (simp add: draft_call_tool_switch_def ToolName_defs)

text \<open>
  C1. A tool call whose name is not a name of the tool list returns a result with
  \<open>isError: true\<close> and one text block that names the unknown tool: in app.js the
  text is \<open>Error: Unknown tool:\<close> and the name, in mcp-server.js it is the same
  message in Turkish, \<open>Hata: Bilinmeyen arac:\<close> (the c with a cedilla) and the name.
  The handler returns: nothing is thrown, no tool function is entered and no request
  is made.
\<close>

theorem unknown_tool:
  "(nm \<notin> set (map name ListTools_handler) \<longrightarrow>
      CallTool_handler rt ds nm args =
        ([], Returned \<lparr>content = [Text (''Error: Unknown tool: '' @ nm)], isError = Some True\<rparr>)) \<and>
   (nm \<notin> set (map name mcp_ListTools_handler) \<longrightarrow>
      mcp_CallTool_handler rt env nm args =
        ([], Returned \<lparr>content = [Text (''Hata: '' @ bilinmeyen_arac @ nm)],
                       isError = Some True\<rparr>))"
  by (simp only: listed_names mcp_listed_names)
     (simp add: CallTool_handler_def mcp_CallTool_handler_def switch_default
        mcp_switch_default error_result_def)

theorem unknown_tool_witness:
  "''drop_table'' \<notin> set (map name ListTools_handler) \<and>
   ''drop_table'' \<notin> set (map name mcp_ListTools_handler) \<and>
   CallTool_handler sample_runtime empty_store ''drop_table'' (JObj []) =
     ([], Returned \<lparr>content = [Text ''Error: Unknown tool: drop_table''],
                    isError = Some True\<rparr>) \<and>
   mcp_CallTool_handler sample_runtime sample_peer ''drop_table'' (JObj []) =
     ([], Returned \<lparr>content = [Text (''Hata: '' @ bilinmeyen_arac @ ''drop_table'')],
                    isError = Some True\<rparr>)"
proof -
  have a: "''drop_table'' \<notin> set (map name ListTools_handler)"
    by (simp add: listed_names switch_cases_def ToolName_defs)
  have b: "''drop_table'' \<notin> set (map name mcp_ListTools_handler)"
    by (simp add: mcp_listed_names mcp_switch_cases_def)
  from a b unknown_tool [of "''drop_table''" sample_runtime empty_store "JObj []" sample_peer]
  show ?thesis by simp
qed

text \<open>
  C7. The tool list of each server names exactly the tools its tool-call handler has a
  case for, each once and in the order of the cases; in app.js that is the order of the
  \<open>ToolName\<close> declaration, restricted to the tools that have a case. Every entry has
  a name, a description and an input shape.
\<close>

theorem tool_list_complete:
  "map name ListTools_handler = switch_cases \<and>
   distinct (map name ListTools_handler) \<and>
   map name ListTools_handler = filter (\<lambda>n. n \<in> set switch_cases) ToolName \<and>
   (\<forall>rt ds nm args.
      (nm \<in> set (map name ListTools_handler)) =
      (call_tool_switch rt ds nm args \<noteq> ([], Threw (Error (''Unknown tool: '' @ nm))))) \<and>
   map name mcp_ListTools_handler = mcp_switch_cases \<and>
   distinct (map name mcp_ListTools_handler) \<and>
   (\<forall>rt env nm args.
      (nm \<in> set (map name mcp_ListTools_handler)) =
      (mcp_call_tool_switch rt env nm args \<noteq> ([], Threw (Error (bilinmeyen_arac @ nm))))) \<and>
   list_all (\<lambda>t. name t \<noteq> [] \<and> description t \<noteq> []) ListTools_handler \<and>
   list_all (\<lambda>t. name t \<noteq> [] \<and> description t \<noteq> []) mcp_ListTools_handler"
proof -
  have d1: "distinct switch_cases"
    by (simp add: switch_cases_def ToolName_defs)
  have d2: "distinct mcp_switch_cases"
    by (simp add: mcp_switch_cases_def)
  have o: "switch_cases = filter (\<lambda>n. n \<in> set switch_cases) ToolName"
    by (simp add: switch_cases_def ToolName_def ToolName_defs)
  have r1: "(nm \<in> set switch_cases) =
      (call_tool_switch rt ds nm args \<noteq> ([], Threw (Error (''Unknown tool: '' @ nm))))"
    for rt ds nm args
    using switch_case_taken switch_default by blast
  have r2: "(nm \<in> set mcp_switch_cases) =
      (mcp_call_tool_switch rt env nm args \<noteq> ([], Threw (Error (bilinmeyen_arac @ nm))))"
    for rt env nm args
    using mcp_switch_case_taken mcp_switch_default by blast
  show ?thesis
    unfolding listed_names mcp_listed_names
    using d1 d2 o r1 r2 descriptions by blast
qed

theorem tool_list_complete_witness:
  "(''get_student_by_id'' \<in> set (map name ListTools_handler)) =
     (call_tool_switch sample_runtime empty_store ''get_student_by_id'' (JObj []) \<noteq>
        ([], Threw (Error (''Unknown tool: '' @ ''get_student_by_id''))))"
  using tool_list_complete by blast

text \<open>
  C2 (as amended). In the tool-call handler of app.js that parses its arguments (the
  second version in src/app.js, lines 666 to 715), for every tool of the list and
  every raw argument object in which a field of the tool's declared shape is missing
  or of the wrong type, the handler returns \<open>isError: true\<close> with the text
  \<open>Error:\<close> followed by the \<open>ZodError\<close>'s message, and it enters no tool function
  and submits no statement. The error has an issue whose path starts with the invalid
  field, so a message that prints the paths of its issues, as Zod's does, names the
  field.
\<close>

theorem invalid_arguments_rejected:
  assumes "t \<in> set ListTools_handler"
    and "inputSchema t = zodToJsonSchema sch"
    and "(k, s) \<in> set sch"
    and "\<not> fits s (member kvs k)"
  shows "CallTool_handler rt ds (name t) (JObj kvs) =
           ([], Returned \<lparr>content = [Text (''Error: '' @ zod_message rt (shape_issues sch kvs))],
                          isError = Some True\<rparr>) \<and>
         (\<exists>i \<in> set (shape_issues sch kvs). take 1 (issue_path i) = [Key k]) \<and>
         (names_paths rt \<longrightarrow>
            string_includes (''Error: '' @ zod_message rt (shape_issues sch kvs)) (quoted k))"
proof -
  from assms(4) fits_of_check have "zod_check s [Key k] (member kvs k) \<noteq> []" by blast
  then obtain i where i: "i \<in> set (zod_check s [Key k] (member kvs k))"
    by (cases "zod_check s [Key k] (member kvs k)") auto
  from zod_check_path [OF i] have p: "take 1 (issue_path i) = [Key k]" by simp
  from i assms(3) have mem: "i \<in> set (shape_issues sch kvs)"
    by (auto simp: shape_issues_def)
  then have ne: "shape_issues sch kvs \<noteq> []" by auto
  then have parse: "zod_parse sch (JObj kvs) = Inl (ZodError (shape_issues sch kvs))"
    by (simp add: zod_parse_def)
  have a: "CallTool_handler rt ds (name t) (JObj kvs) =
           ([], Returned \<lparr>content = [Text (''Error: '' @ zod_message rt (shape_issues sch kvs))],
                          isError = Some True\<rparr>)"
    by (simp add: CallTool_handler_def switch_rejects [OF assms(1,2) parse] error_result_def)
  have b: "\<exists>i \<in> set (shape_issues sch kvs). take 1 (issue_path i) = [Key k]"
    using mem p by blast
  have c: "string_includes (''Error: '' @ zod_message rt (shape_issues sch kvs)) (quoted k)"
    if n: "names_paths rt"
  proof -
    from p have "Key k \<in> set (issue_path i)"
      by (cases "issue_path i") auto
    with n mem have "string_includes (zod_message rt (shape_issues sch kvs)) (quoted k)"
      unfolding names_paths_def by blast
    from string_includes_wrap [OF this, of "''Error: ''" "[]"] show ?thesis by simp
  qed
  from a b c show ?thesis by blast
qed

theorem invalid_arguments_rejected_witness:
  "ListTools_handler ! 1 \<in> set ListTools_handler \<and>
   inputSchema (ListTools_handler ! 1) = zodToJsonSchema StudentIdSchema \<and>
   (''id'', ZDescribe ZNumber (O_uml @ g_breve @ ''renci ID'')) \<in> set StudentIdSchema \<and>
   \<not> fits (ZDescribe ZNumber (O_uml @ g_breve @ ''renci ID''))
          (member [(''id'', JStr ''abc'')] ''id'') \<and>
   \<not> fits (ZDescribe ZNumber (O_uml @ g_breve @ ''renci ID'')) (member [] ''id'') \<and>
   names_paths sample_runtime \<and>
   CallTool_handler sample_runtime empty_store ''get_student_by_id''
       (JObj [(''id'', JStr ''abc'')]) =
     ([], Returned \<lparr>content =
            [Text (''Error: '' @ ZodError_message [InvalidType [Key ''id''] ''number'' ''string''])],
          isError = Some True\<rparr>) \<and>
   string_includes
     (''Error: '' @ ZodError_message [InvalidType [Key ''id''] ''number'' ''string''])
     (quoted ''id'') \<and>
   CallTool_handler sample_runtime empty_store ''get_student_by_id'' (JObj []) =
     ([], Returned \<lparr>content =
            [Text (''Error: '' @ ZodError_message [InvalidType [Key ''id''] ''number'' ''undefined''])],
          isError = Some True\<rparr>) \<and>
   string_includes
     (''Error: '' @ ZodError_message [InvalidType [Key ''id''] ''number'' ''undefined''])
     (quoted ''id'')"
proof -
  let ?s = "ZDescribe ZNumber (O_uml @ g_breve @ ''renci ID'')"
  have t: "ListTools_handler ! 1 \<in> set ListTools_handler"
    by (simp add: ListTools_handler_def)
  have i: "inputSchema (ListTools_handler ! 1) = zodToJsonSchema StudentIdSchema"
    by (simp add: ListTools_handler_def)
  have n: "name (ListTools_handler ! 1) = ''get_student_by_id''"
    by (simp add: ListTools_handler_def GET_STUDENT_BY_ID_def)
  have k: "(''id'', ?s) \<in> set StudentIdSchema"
    by (simp add: StudentIdSchema_def)
  have w: "\<not> fits ?s (member [(''id'', JStr ''abc'')] ''id'')"
    by (simp add: member_def)
  have m: "\<not> fits ?s (member [] ''id'')"
    by (simp add: member_def)
  have z: "zod_message sample_runtime = ZodError_message"
    by (simp add: sample_runtime_def)
  have s1: "shape_issues StudentIdSchema [(''id'', JStr ''abc'')] =
              [InvalidType [Key ''id''] ''number'' ''string'']"
    by (simp add: shape_issues_def StudentIdSchema_def member_def)
  have s2: "shape_issues StudentIdSchema [] = [InvalidType [Key ''id''] ''number'' ''undefined'']"
    by (simp add: shape_issues_def StudentIdSchema_def member_def)
  note r1 = invalid_arguments_rejected [OF t i k w, of sample_runtime empty_store,
      unfolded n z s1]
  note r2 = invalid_arguments_rejected [OF t i k m, of sample_runtime empty_store,
      unfolded n z s2]
  from r1 r2 sample_names_paths t i k w m show ?thesis by blast
qed

text \<open>
  C2 as stated fails in the two handlers that do not parse. mcp-server.js declares
  \<open>search\<close> of \<open>search_students\<close> a required string, and a call with
  \<open>{search: true}\<close> makes the HTTP request and returns the peer's answer without
  \<open>isError\<close>. The first version in src/app.js declares \<open>id\<close> of
  \<open>get_student_by_id\<close> a number, and a call with \<open>{id: "abc"}\<close> enters
  \<open>getStudentById\<close>, submits the statement and answers that no student was found,
  which does not name the field.
\<close>

theorem unvalidated_handlers_counterexample:
  "name (mcp_ListTools_handler ! 6) = ''search_students'' \<and>
   \<not> conforms (inputSchema (mcp_ListTools_handler ! 6)) (JObj [(''search'', JBool True)]) \<and>
   mcp_CallTool_handler sample_runtime sample_peer ''search_students''
       (JObj [(''search'', JBool True)]) =
     ([Http (GET ''http://localhost:3000/api/ogrenciler/ara/true'')],
      Returned \<lparr>content = [Text ''{data:[],}''], isError = None\<rparr>) \<and>
   name (draft_ListTools_handler ! 1) = ''get_student_by_id'' \<and>
   inputSchema (draft_ListTools_handler ! 1) =
     zodToJsonSchema [(''id'', ZDescribe ZNumber (O_uml @ g_breve @ ''renci ID''))] \<and>
   \<not> fits (ZDescribe ZNumber (O_uml @ g_breve @ ''renci ID''))
          (member [(''id'', JStr ''abc'')] ''id'') \<and>
   draft_CallTool_handler sample_runtime empty_store ''get_student_by_id''
       (JObj [(''id'', JStr ''abc'')]) =
     ([Invoke ''getStudentById'', Submit SelectStudentById (JArr [JStr ''abc''])],
      Returned \<lparr>content = [Text (''Error: '' @ ogrenci_bulunamadi)], isError = Some True\<rparr>)"
proof -
  have a: "name (mcp_ListTools_handler ! 6) = ''search_students''"
    by (simp add: mcp_ListTools_handler_def)
  have b: "\<not> conforms (inputSchema (mcp_ListTools_handler ! 6)) (JObj [(''search'', JBool True)])"
    by (simp add: mcp_ListTools_handler_def conforms_def member_def)
  have c: "mcp_CallTool_handler sample_runtime sample_peer ''search_students''
       (JObj [(''search'', JBool True)]) =
     ([Http (GET ''http://localhost:3000/api/ogrenciler/ara/true'')],
      Returned \<lparr>content = [Text ''{data:[],}''], isError = None\<rparr>)"
    by (simp add: mcp_CallTool_handler_def mcp_switch_branches with_arg_def args_get_def
        http_tool_def member_def sample_runtime_def sample_peer_def)
  have d: "name (draft_ListTools_handler ! 1) = ''get_student_by_id''"
    by (simp add: draft_ListTools_handler_def GET_STUDENT_BY_ID_def)
  have e: "inputSchema (draft_ListTools_handler ! 1) =
     zodToJsonSchema [(''id'', ZDescribe ZNumber (O_uml @ g_breve @ ''renci ID''))]"
    by (simp add: draft_ListTools_handler_def)
  have f: "\<not> fits (ZDescribe ZNumber (O_uml @ g_breve @ ''renci ID''))
          (member [(''id'', JStr ''abc'')] ''id'')"
    by (simp add: member_def)
  have "draft_CallTool_handler sample_runtime empty_store GET_STUDENT_BY_ID
       (JObj [(''id'', JStr ''abc'')]) =
     ([Invoke ''getStudentById'', Submit SelectStudentById (JArr [JStr ''abc''])],
      Returned \<lparr>content = [Text (''Error: '' @ ogrenci_bulunamadi)], isError = Some True\<rparr>)"
    by (simp add: draft_CallTool_handler_def draft_branch with_arg_def args_get_def
        getStudentById_def member_def empty_store_def error_result_def)
  then have g: "draft_CallTool_handler sample_runtime empty_store ''get_student_by_id''
       (JObj [(''id'', JStr ''abc'')]) =
     ([Invoke ''getStudentById'', Submit SelectStudentById (JArr [JStr ''abc''])],
      Returned \<lparr>content = [Text (''Error: '' @ ogrenci_bulunamadi)], isError = Some True\<rparr>)"
    by (simp add: GET_STUDENT_BY_ID_def)
  from a b c d e f g show ?thesis by blast
qed

text \<open>
  C6. A call of \<open>get_student_by_id\<close> in app.js whose arguments carry a number as
  \<open>id\<close>, for which the Data Store reports no row, returns \<open>isError: true\<close> with
  the text \<open>Error:\<close> followed by the source's not-found message (Turkish for
  "student not found"); the handler returns, nothing is thrown.
\<close>

theorem get_student_by_id_not_found:
  assumes "member kvs ''id'' = JNum n"
    and "db_get ds SelectStudentById (JArr [JNum n]) = Inr None"
  shows "CallTool_handler rt ds GET_STUDENT_BY_ID (JObj kvs) =
           ([Invoke ''getStudentById'', Submit SelectStudentById (JArr [JNum n])],
            Returned \<lparr>content = [Text (''Error: '' @ ogrenci_bulunamadi)],
                      isError = Some True\<rparr>)"
  using assms(2)
  by (simp add: CallTool_handler_def switch_branches validated_def
      parse_student_id [OF assms(1)] getStudentById_def member_def error_result_def)

theorem get_student_by_id_not_found_witness:
  "member [(''id'', JNum 42)] ''id'' = JNum 42 \<and>
   db_get empty_store SelectStudentById (JArr [JNum 42]) = Inr None \<and>
   CallTool_handler sample_runtime empty_store ''get_student_by_id'' (JObj [(''id'', JNum 42)]) =
     ([Invoke ''getStudentById'', Submit SelectStudentById (JArr [JNum 42])],
      Returned \<lparr>content = [Text (''Error: '' @ ogrenci_bulunamadi)], isError = Some True\<rparr>)"
proof -
  have a: "member [(''id'', JNum 42)] ''id'' = JNum 42" by (simp add: member_def)
  have b: "db_get empty_store SelectStudentById (JArr [JNum 42]) = Inr None"
    by (simp add: empty_store_def)
  from get_student_by_id_not_found [OF a b, of sample_runtime] a b
  show ?thesis by (simp add: GET_STUDENT_BY_ID_def)
qed

text \<open>
  C8. When the query string, trimmed and upper-cased, does not start with \<open>SELECT\<close>:
  \<open>customQuery\<close> rejects before it submits anything; a \<open>custom_query\<close> tool call
  with that query returns \<open>isError: true\<close> (the rejection, or the \<open>ZodError\<close> when
  \<open>params\<close> is malformed) and its trace holds no statement; and the REST route answers
  400 with the rejection text and submits nothing.
\<close>

theorem non_select_rejected:
  assumes "\<not> is_select rt q"
  shows "customQuery rt ds (JStr q) params =
           ([Invoke ''customQuery''], Threw (Error sadece_select)) \<and>
         (\<forall>kvs. member kvs ''query'' = JStr q \<longrightarrow>
            CallTool_handler rt ds CUSTOM_QUERY (JObj kvs) =
              (if shape_issues CustomQuerySchema kvs = []
               then ([Invoke ''customQuery''],
                     Returned \<lparr>content = [Text (''Error: '' @ sadece_select)],
                               isError = Some True\<rparr>)
               else ([], Returned \<lparr>content =
                           [Text (''Error: '' @ zod_message rt (shape_issues CustomQuerySchema kvs))],
                         isError = Some True\<rparr>)) \<and>
            (\<forall>s p. Submit s p \<notin> set (fst (CallTool_handler rt ds CUSTOM_QUERY (JObj kvs))))) \<and>
         (\<forall>body. get_property body ''query'' = JStr q \<longrightarrow>
            post_custom_query rt ds body =
              ([Reply 400 (JObj [(''error'', JStr sadece_select)])], Returned ()))"
proof -
  have a: "customQuery rt ds (JStr q) params =
           ([Invoke ''customQuery''], Threw (Error sadece_select))"
    by (rule customQuery_guard [OF assms])
  have b: "\<forall>s p. Submit s p \<notin> set (fst (CallTool_handler rt ds CUSTOM_QUERY (JObj kvs)))"
    if "member kvs ''query'' = JStr q" for kvs
    by (simp add: custom_query_call [OF assms that])
  show ?thesis
    using a b custom_query_call [OF assms] post_custom_query_guard [OF assms] by blast
qed

theorem non_select_rejected_witness:
  "\<not> is_select sample_runtime ''  delete from notlar'' \<and>
   CallTool_handler sample_runtime empty_store ''custom_query''
       (JObj [(''query'', JStr ''  delete from notlar'')]) =
     ([Invoke ''customQuery''],
      Returned \<lparr>content = [Text (''Error: '' @ sadece_select)], isError = Some True\<rparr>) \<and>
   post_custom_query sample_runtime empty_store (JObj [(''query'', JStr ''  delete from notlar'')]) =
     ([Reply 400 (JObj [(''error'', JStr sadece_select)])], Returned ())"
proof -
  have g: "\<not> is_select sample_runtime ''  delete from notlar''"
    by (simp add: is_select_def sample_runtime_def startsWith_def ascii_trim_def is_space_def
        ascii_upper_def)
  have m: "member [(''query'', JStr ''  delete from notlar'')] ''query'' = JStr ''  delete from notlar''"
    by (simp add: member_def)
  have p: "get_property (JObj [(''query'', JStr ''  delete from notlar'')]) ''query'' =
             JStr ''  delete from notlar''"
    by (simp add: member_def)
  have i: "shape_issues CustomQuerySchema [(''query'', JStr ''  delete from notlar'')] = []"
    by (simp add: shape_issues_def CustomQuerySchema_def member_def)
  from non_select_rejected [OF g, of empty_store JUndefined] g m p i
  show ?thesis by (simp add: CUSTOM_QUERY_def)
qed

section \<open>Properties of the REST routes\<close>

lemma genel_ortalama_undeclared:
  "''genel_ortalama'' \<notin> set server_js_globals" "''genel_ortalama'' \<notin> set app_js_globals"
  by (simp_all add: server_js_globals_def app_js_globals_def)

lemma map_of_opaque:
  "x \<notin> set xs \<Longrightarrow> map_of (map (\<lambda>x. (x, Opaque)) xs) x = None"
  by (induction xs) auto

lemma resolve_undeclared:
  assumes "''genel_ortalama'' \<notin> set globals"
  shows "resolve_identifier (ortalama_scope globals rows g) ''genel_ortalama'' =
           Threw (ReferenceError ''genel_ortalama is not defined'')"
  using map_of_opaque [OF assms]
  by (simp add: resolve_identifier_def ortalama_scope_def map_add_def)





text \<open>
  C9. In both files that hold the route \<open>GET /api/ogrenciler/:id/ortalama\<close>, whenever
  the query succeeds, for any id and any rows (none included), the callback throws
  \<open>ReferenceError: genel_ortalama is not defined\<close>: the mean is bound to
  \<open>genelOrtalama\<close> and no scope declares \<open>genel_ortalama\<close>. No response is sent.
\<close>

theorem ortalama_reference_error:
  assumes "globals = server_js_globals \<or> globals = app_js_globals"
    and "db_all ds SelectStudentAverage (JArr [ident]) = Inr rows"
  shows "get_ortalama rt ds globals ident =
           ([Submit SelectStudentAverage (JArr [ident])],
            Threw (ReferenceError ''genel_ortalama is not defined''))"
proof -
  from assms(1) have "''genel_ortalama'' \<notin> set globals"
    using genel_ortalama_undeclared by blast
  then show ?thesis
    using assms(2) by (simp add: get_ortalama_def resolve_undeclared)
qed

theorem ortalama_reference_error_witness:
  "db_all empty_store SelectStudentAverage (JArr [JStr ''7'']) = Inr [] \<and>
   get_ortalama sample_runtime empty_store server_js_globals (JStr ''7'') =
     ([Submit SelectStudentAverage (JArr [JStr ''7''])],
      Threw (ReferenceError ''genel_ortalama is not defined'')) \<and>
   get_ortalama sample_runtime empty_store app_js_globals (JStr ''7'') =
     ([Submit SelectStudentAverage (JArr [JStr ''7''])],
      Threw (ReferenceError ''genel_ortalama is not defined''))"
proof -
  have d: "db_all empty_store SelectStudentAverage (JArr [JStr ''7'']) = Inr []"
    by (simp add: empty_store_def)
  have a: "server_js_globals = server_js_globals \<or> server_js_globals = app_js_globals" by simp
  have b: "app_js_globals = server_js_globals \<or> app_js_globals = app_js_globals" by simp
  from ortalama_reference_error [OF a d, of sample_runtime]
       ortalama_reference_error [OF b d, of sample_runtime] d
  show ?thesis by simp
qed




section \<open>Properties of the session registry\<close>

text \<open>
  C3. A POST to the message endpoint whose \<open>sessionId\<close> is not a key of the session
  registry is answered with 404 and the body \<open>{error: "Session not found"}\<close>; nothing
  is forwarded to a protocol server and the registry and the sessions are unchanged.
\<close>

theorem post_message_unknown_session:
  assumes "transports_get (transports st) sid = None"
  shows "post_message st sid body =
           (st, [LogNoTransport sid,
                 Respond 404 (JObj [(''error'', JStr ''Session not found'')])])"
  using assms by (simp add: post_message_def)

theorem post_message_unknown_session_witness:
  "transports_get (transports no_sessions) (Some (QString ''abc'')) = None \<and>
   post_message no_sessions (Some (QString ''abc'')) (JObj []) =
     (no_sessions, [LogNoTransport (Some (QString ''abc'')),
                    Respond 404 (JObj [(''error'', JStr ''Session not found'')])])"
proof -
  have h: "transports_get (transports no_sessions) (Some (QString ''abc'')) = None"
    by (simp add: no_sessions_def)
  show ?thesis
    using h post_message_unknown_session [OF h, of "JObj []"] by simp
qed

text \<open>
  C4 (as amended). For a session opened by a \<open>GET /sse\<close> without a truthy
  \<open>sessionId\<close>: the session is registered; a close event removes its registry entry,
  so a lookup of the id finds nothing, leaves every other entry alone and runs cleanup
  once; a second close event for the same id raises no fault and leaves the registry
  and the hooks as they are, but it runs the \<open>onclose\<close> closure again, cleanup included.
\<close>

theorem close_event_removes_session:
  assumes "\<not> truthy_query sid"
    and "get_sse st sid fresh = (st1, ev1)"
    and "close_event \<lparr>sessionId = fresh\<rparr> st1 = (st2, ev2)"
    and "close_event \<lparr>sessionId = fresh\<rparr> st2 = (st3, ev3)"
  shows "transports st1 fresh = Some \<lparr>sessionId = fresh\<rparr> \<and>
         transports st2 fresh = None \<and>
         transports_get (transports st2) (Some (QString fresh)) = None \<and>
         (\<forall>k. k \<noteq> fresh \<longrightarrow> transports st2 k = transports st1 k) \<and>
         count_list ev2 Cleanup = 1 \<and>
         st3 = st2 \<and>
         ev3 = [LogDisconnected fresh, Cleanup]"
proof -
  let ?t = "\<lparr>sessionId = fresh\<rparr>"
  from assms(1,2) have st1: "st1 = st\<lparr>transports := (transports st)(fresh \<mapsto> ?t),
                                       onclose := insert fresh (onclose st)\<rparr>"
    by (simp add: get_sse_def)
  have hook1: "fresh \<in> onclose st1" using st1 by simp
  have c1: "close_event ?t st1 =
              (st1\<lparr>transports := (transports st1)(fresh := None)\<rparr>, [LogDisconnected fresh, Cleanup])"
    using hook1 by (simp add: close_event_def server_onclose_def)
  from c1 assms(3) have st2: "st2 = st1\<lparr>transports := (transports st1)(fresh := None)\<rparr>"
    and ev2: "ev2 = [LogDisconnected fresh, Cleanup]"
    by simp_all
  have hook2: "fresh \<in> onclose st2" using st2 hook1 by simp
  have c2: "close_event ?t st2 =
              (st2\<lparr>transports := (transports st2)(fresh := None)\<rparr>, [LogDisconnected fresh, Cleanup])"
    using hook2 by (simp add: close_event_def server_onclose_def)
  have again: "st2\<lparr>transports := (transports st2)(fresh := None)\<rparr> = st2"
    using st2 by simp
  from c2 again assms(4) have st3: "st3 = st2" and ev3: "ev3 = [LogDisconnected fresh, Cleanup]"
    by simp_all
  have r1: "transports st1 fresh = Some ?t" using st1 by simp
  have r2: "transports st2 fresh = None" using st2 by simp
  have r3: "\<forall>k. k \<noteq> fresh \<longrightarrow> transports st2 k = transports st1 k" using st2 by simp
  have r4: "count_list ev2 Cleanup = 1" using ev2 by simp
  from r1 r2 r3 r4 st3 ev3 show ?thesis by simp
qed

theorem close_event_removes_session_witness:
  "\<not> truthy_query None \<and>
   transports (fst (get_sse no_sessions None ''s1'')) ''s1'' = Some \<lparr>sessionId = ''s1''\<rparr> \<and>
   transports (fst (close_event \<lparr>sessionId = ''s1''\<rparr> (fst (get_sse no_sessions None ''s1''))))
     ''s1'' = None \<and>
   count_list (snd (close_event \<lparr>sessionId = ''s1''\<rparr> (fst (get_sse no_sessions None ''s1''))))
     Cleanup = 1"
proof -
  let ?t = "\<lparr>sessionId = ''s1''\<rparr>"
  let ?o = "get_sse no_sessions None ''s1''"
  let ?c1 = "close_event ?t (fst ?o)"
  let ?c2 = "close_event ?t (fst ?c1)"
  have n: "\<not> truthy_query None" by simp
  have a: "?o = (fst ?o, snd ?o)" by simp
  have b: "?c1 = (fst ?c1, snd ?c1)" by simp
  have c: "?c2 = (fst ?c2, snd ?c2)" by simp
  from close_event_removes_session [OF n a b c] n show ?thesis by simp
qed

text \<open>
  C4 as stated fails: two close events for the one session of an otherwise empty
  registry run cleanup twice, and the second close event is not a no-op.
\<close>

theorem close_event_twice_counterexample:
  "count_list
     (snd (close_event \<lparr>sessionId = ''s1''\<rparr> (fst (get_sse no_sessions None ''s1''))) @
      snd (close_event \<lparr>sessionId = ''s1''\<rparr>
             (fst (close_event \<lparr>sessionId = ''s1''\<rparr> (fst (get_sse no_sessions None ''s1''))))))
     Cleanup = 2 \<and>
   snd (close_event \<lparr>sessionId = ''s1''\<rparr>
          (fst (close_event \<lparr>sessionId = ''s1''\<rparr> (fst (get_sse no_sessions None ''s1''))))) =
     [LogDisconnected ''s1'', Cleanup]"
  by (simp add: get_sse_def close_event_def server_onclose_def no_sessions_def)

text \<open>
  C5 (as amended). A \<open>GET /sse\<close> whose \<open>sessionId\<close> query value is truthy (a
  non-empty string, or an array or object) creates no session: the registry and the
  hooks are as before, and the handler only builds a server instance and logs.
\<close>

theorem get_sse_with_session_id:
  assumes "truthy_query sid"
  shows "get_sse st sid fresh =
           (st, [CreateMCPServer,
                 LogReconnecting (map_option sessionId (transports_get (transports st) sid))])"
  using assms by (simp add: get_sse_def)

theorem get_sse_with_session_id_witness:
  "truthy_query (Some (QString ''abc'')) \<and>
   get_sse no_sessions (Some (QString ''abc'')) ''s1'' =
     (no_sessions, [CreateMCPServer, LogReconnecting None])"
proof -
  have h: "truthy_query (Some (QString ''abc''))" by simp
  show ?thesis
    using h get_sse_with_session_id [OF h, of no_sessions "''s1''"]
    by (simp add: no_sessions_def)
qed

text \<open>
  C5 as stated fails: a request that carries \<open>sessionId\<close> with the empty string as
  its value takes the branch of a request without one, and a new session is registered.
\<close>

theorem get_sse_empty_session_id_counterexample:
  "transports (fst (get_sse no_sessions (Some (QString [])) ''s1'')) ''s1'' =
     Some \<lparr>sessionId = ''s1''\<rparr> \<and>
   transports no_sessions ''s1'' = None \<and>
   fst (get_sse no_sessions (Some (QString [])) ''s1'') \<noteq> no_sessions"
proof -
  have a: "transports (fst (get_sse no_sessions (Some (QString [])) ''s1'')) ''s1'' =
             Some \<lparr>sessionId = ''s1''\<rparr>"
    by (simp add: get_sse_def)
  have b: "transports no_sessions ''s1'' = None"
    by (simp add: no_sessions_def)
  from a b have "fst (get_sse no_sessions (Some (QString [])) ''s1'') \<noteq> no_sessions"
    by auto
  with a b show ?thesis by simp
qed

end
